theory Spec2Isabelle
  imports Main
begin

section \<open>Values\<close>

text \<open>
  A Python \<open>str\<close> is a sequence of Unicode code points and \<open>len\<close> counts code points, so
  text received from a user is a list of code points. Table names, message types and
  dictionary keys of the program are ASCII and stay HOL strings.
\<close>

type_synonym ustr = "nat list"

definition ascii :: "string \<Rightarrow> ustr" where
  "ascii s = map of_char s"

text \<open>
  Every \<open>datetime\<close> the program compares is timezone-aware (\<open>datetime.now(moscow_tz)\<close>,
  a stored ISO string with an offset); aware values compare by their position on the UTC
  time line, here the number of microseconds since the epoch.
\<close>

type_synonym instant = int

text \<open>
  The values held by \<open>context.user_data\<close>, by JSON payloads and by the dynamically typed
  SQLite columns. \<open>JTime t\<close> stands for the string \<open>t.isoformat()\<close>.
\<close>

datatype jval =
    JNull
  | JBool bool
  | JInt int
  | JStr ustr
  | JTime instant
  | JDict "string \<Rightarrow> jval option"

type_synonym pydict = "string \<rightharpoonup> jval"

text \<open>\<open>d.get(k, default)\<close> and \<open>d.get(k)\<close>.\<close>

definition dict_get :: "pydict \<Rightarrow> string \<Rightarrow> jval \<Rightarrow> jval" where
  "dict_get d k dflt = (case d k of None \<Rightarrow> dflt | Some v \<Rightarrow> v)"

datatype py_error =
    KeyError | NameError | TypeError | AttributeError | InterfaceError | ValueError
  | IndexError | OperationalError | Outside_model

section \<open>The persistent store (database.py)\<close>

text \<open>
  One record per table of \<open>init_database\<close>. Tables with \<open>INTEGER PRIMARY KEY
  AUTOINCREMENT\<close> are lists of rows in insertion order together with the next id to
  hand out; \<open>users\<close> and \<open>user_states\<close> are keyed by the user id. The column
  \<open>registration_date\<close> and the table \<open>support_requests\<close> are written once and never read
  by the operations below; they are left out.
\<close>

record user_row =
  username :: jval
  telegram_first_name :: jval
  telegram_last_name :: jval
  first_name :: jval
  last_name :: jval
  participation_type :: jval
  family_members_count :: jval
  children_info :: jval
  registration_completed :: bool

record task_row =
  t_id :: int
  t_title :: ustr
  t_description :: jval
  t_link :: jval
  t_is_open :: bool
  t_week_number :: jval
  t_deadline :: "instant option"
  t_open_date :: "instant option"

record submission_row =
  s_id :: int
  s_user_id :: int
  s_task_id :: int
  s_date :: instant
  s_type :: jval
  s_content :: jval
  s_file_id :: jval
  s_file_path :: jval
  s_status :: string
  s_is_on_time :: bool

text \<open>
  The column \<open>message_data\<close> of \<open>offline_messages\<close> is text. What matters to the program
  is what \<open>json.loads\<close> makes of it: an object (every payload the bot writes with
  \<open>json.dumps\<close> of a dict), another JSON value, or a decoding error (free text such as an
  administrator's note).
\<close>

datatype message_data =
    Json_object pydict
  | Json_other ustr
  | Not_json ustr

record message_row =
  m_id :: int
  m_user_id :: int
  m_data :: message_data
  m_type :: string
  m_received :: instant
  m_processed :: bool

record db =
  users :: "int \<rightharpoonup> user_row"
  user_states :: "int \<rightharpoonup> (int \<times> pydict)"
  tasks :: "task_row list"
  next_task_id :: int
  submissions :: "submission_row list"
  next_submission_id :: int
  offline_messages :: "message_row list"
  next_message_id :: int

definition save_user_state :: "db \<Rightarrow> int \<Rightarrow> int \<Rightarrow> pydict \<Rightarrow> db" where
  "save_user_state d user_id state context_data =
     d\<lparr>user_states := (user_states d)(user_id \<mapsto> (state, context_data))\<rparr>"

definition get_user_state :: "db \<Rightarrow> int \<Rightarrow> int \<times> pydict" where
  "get_user_state d user_id =
     (case user_states d user_id of
        Some (state, context_data) \<Rightarrow> (state, context_data)
      | None \<Rightarrow> (0, Map.empty))"

text \<open>The \<open>UPDATE\<close> and, when no row was updated, the \<open>INSERT\<close> leave the same row.\<close>

definition clear_user_state :: "db \<Rightarrow> int \<Rightarrow> db" where
  "clear_user_state d user_id =
     (case user_states d user_id of
        Some r \<Rightarrow> d\<lparr>user_states := (user_states d)(user_id \<mapsto> (0, Map.empty))\<rparr>
      | None \<Rightarrow> d\<lparr>user_states := (user_states d)(user_id \<mapsto> (0, Map.empty))\<rparr>)"

definition save_offline_message ::
  "db \<Rightarrow> int \<Rightarrow> message_data \<Rightarrow> string \<Rightarrow> instant \<Rightarrow> db" where
  "save_offline_message d user_id message_data message_type now =
     d\<lparr>offline_messages := offline_messages d @
          [\<lparr>m_id = next_message_id d, m_user_id = user_id, m_data = message_data,
            m_type = message_type, m_received = now, m_processed = False\<rparr>],
       next_message_id := next_message_id d + 1\<rparr>"

text \<open>
  \<open>ORDER BY received_date ASC\<close>: a stable sort of the rows in insertion order (rows of
  one second keep their order of arrival).
\<close>

definition get_offline_messages :: "db \<Rightarrow> int \<Rightarrow> message_row list" where
  "get_offline_messages d user_id =
     sort_key m_received
       (filter (\<lambda>m. m_user_id m = user_id \<and> \<not> m_processed m) (offline_messages d))"

definition mark_offline_message_processed :: "db \<Rightarrow> int \<Rightarrow> db" where
  "mark_offline_message_processed d message_id =
     d\<lparr>offline_messages :=
          map (\<lambda>m. if m_id m = message_id then m\<lparr>m_processed := True\<rparr> else m)
            (offline_messages d)\<rparr>"

definition add_user :: "db \<Rightarrow> int \<Rightarrow> jval \<Rightarrow> jval \<Rightarrow> jval \<Rightarrow> db" where
  "add_user d user_id uname tg_first tg_last =
     (case users d user_id of
        Some u \<Rightarrow>
          d\<lparr>users := (users d)(user_id \<mapsto>
               u\<lparr>username := uname, telegram_first_name := tg_first,
                 telegram_last_name := tg_last\<rparr>)\<rparr>
      | None \<Rightarrow>
          d\<lparr>users := (users d)(user_id \<mapsto>
               \<lparr>username = uname, telegram_first_name = tg_first,
                telegram_last_name = tg_last, first_name = JNull, last_name = JNull,
                participation_type = JStr (ascii ''individual''),
                family_members_count = JInt 1, children_info = JNull,
                registration_completed = False\<rparr>)\<rparr>)"

definition update_user_registration ::
  "db \<Rightarrow> int \<Rightarrow> jval \<Rightarrow> jval \<Rightarrow> jval \<Rightarrow> jval \<Rightarrow> jval \<Rightarrow> db" where
  "update_user_registration d user_id fname lname ptype fcount children =
     (case users d user_id of
        Some u \<Rightarrow>
          d\<lparr>users := (users d)(user_id \<mapsto>
               u\<lparr>first_name := fname, last_name := lname, participation_type := ptype,
                 family_members_count := fcount, children_info := children,
                 registration_completed := True\<rparr>)\<rparr>
      | None \<Rightarrow> d)"

definition update_user_name :: "db \<Rightarrow> int \<Rightarrow> jval \<Rightarrow> jval \<Rightarrow> db" where
  "update_user_name d user_id fname lname =
     (case users d user_id of
        Some u \<Rightarrow> d\<lparr>users := (users d)(user_id \<mapsto> u\<lparr>first_name := fname, last_name := lname\<rparr>)\<rparr>
      | None \<Rightarrow> d)"

definition get_user :: "db \<Rightarrow> int \<Rightarrow> user_row option" where
  "get_user d user_id = users d user_id"

text \<open>\<open>return result and result[0]\<close>, used only for its truth value.\<close>

definition is_user_registered :: "db \<Rightarrow> int \<Rightarrow> bool" where
  "is_user_registered d user_id =
     (case users d user_id of None \<Rightarrow> False | Some u \<Rightarrow> registration_completed u)"

definition add_task ::
  "db \<Rightarrow> ustr \<Rightarrow> jval \<Rightarrow> jval \<Rightarrow> jval \<Rightarrow> instant option \<Rightarrow> bool \<Rightarrow> instant option \<Rightarrow> db" where
  "add_task d title description link week_number deadline is_open open_date =
     d\<lparr>tasks := tasks d @
          [\<lparr>t_id = next_task_id d, t_title = title, t_description = description,
            t_link = link, t_is_open = is_open, t_week_number = week_number,
            t_deadline = deadline, t_open_date = open_date\<rparr>],
       next_task_id := next_task_id d + 1\<rparr>"

text \<open>
  \<open>_check_submission_deadline\<close>: no row for the task, or a row whose deadline is
  \<open>NULL\<close>, gives \<open>True\<close>; otherwise the two instants are compared with \<open>\<le>\<close>.
\<close>

definition check_submission_deadline :: "db \<Rightarrow> int \<Rightarrow> instant \<Rightarrow> bool" where
  "check_submission_deadline d task_id submission_time =
     (case find (\<lambda>t. t_id t = task_id) (tasks d) of
        None \<Rightarrow> True
      | Some t \<Rightarrow>
          (case t_deadline t of
             None \<Rightarrow> True
           | Some deadline \<Rightarrow> submission_time \<le> deadline))"

text \<open>\<open>submit_task\<close>; \<open>now\<close> is the value of \<open>datetime.now(moscow_tz)\<close>.\<close>

definition submit_task ::
  "db \<Rightarrow> int \<Rightarrow> int \<Rightarrow> jval \<Rightarrow> jval \<Rightarrow> jval \<Rightarrow> jval \<Rightarrow> instant \<Rightarrow> db \<times> bool" where
  "submit_task d user_id task_id submission_type content file_id file_path now =
     (let is_on_time = check_submission_deadline d task_id now
      in (d\<lparr>submissions := submissions d @
               [\<lparr>s_id = next_submission_id d, s_user_id = user_id, s_task_id = task_id,
                 s_date = now, s_type = submission_type, s_content = content,
                 s_file_id = file_id, s_file_path = file_path, s_status = ''pending'',
                 s_is_on_time = is_on_time\<rparr>],
            next_submission_id := next_submission_id d + 1\<rparr>,
          is_on_time))"

text \<open>
  Values that \<open>sqlite3\<close> binds to a statement parameter; a dict is refused with an
  \<open>InterfaceError\<close>.
\<close>

fun bindable :: "jval \<Rightarrow> bool" where
  "bindable (JDict _) = False"
| "bindable _ = True"

text \<open>\<open>if admin_notes:\<close> the note is neither \<open>None\<close> nor the empty string.\<close>

fun note_given :: "message_data option \<Rightarrow> bool" where
  "note_given None = False"
| "note_given (Some (Not_json s)) = (s \<noteq> [])"
| "note_given (Some (Json_other s)) = (s \<noteq> [])"
| "note_given (Some (Json_object _)) = True"

text \<open>
  \<open>mark_potential_report_as_submission\<close>. All statements run on one connection and are
  committed together; an exception that leaves the \<open>with\<close> block rolls them back. A
  \<open>JSONDecodeError\<close> is caught and answered with \<open>False\<close>; \<open>data.get\<close> on a JSON value
  that is not an object raises \<open>AttributeError\<close>, which is not caught.
\<close>

definition mark_potential_report_as_submission ::
  "db \<Rightarrow> int \<Rightarrow> int \<Rightarrow> message_data option \<Rightarrow> instant \<Rightarrow> db \<times> (py_error + bool)" where
  "mark_potential_report_as_submission d message_id task_id admin_notes now =
     (case find (\<lambda>m. m_id m = message_id) (offline_messages d) of
        None \<Rightarrow> (d, Inr False)
      | Some m \<Rightarrow>
          (case m_data m of
             Not_json s \<Rightarrow> (d, Inr False)
           | Json_other s \<Rightarrow> (d, Inl AttributeError)
           | Json_object data \<Rightarrow>
               (let submission_type = dict_get data ''type'' (JStr (ascii ''text''));
                    content = dict_get data ''content'' (JStr []);
                    file_id = dict_get data ''file_id'' JNull;
                    file_path = dict_get data ''file_path'' JNull;
                    is_on_time = check_submission_deadline d task_id now
                in if \<not> (bindable submission_type \<and> bindable content
                          \<and> bindable file_id \<and> bindable file_path)
                   then (d, Inl InterfaceError)
                   else
                     (let d1 = d\<lparr>submissions := submissions d @
                                  [\<lparr>s_id = next_submission_id d, s_user_id = m_user_id m,
                                    s_task_id = task_id, s_date = now,
                                    s_type = submission_type, s_content = content,
                                    s_file_id = file_id, s_file_path = file_path,
                                    s_status = ''approved'', s_is_on_time = is_on_time\<rparr>],
                                next_submission_id := next_submission_id d + 1\<rparr>;
                          d2 = mark_offline_message_processed d1 message_id;
                          d3 = (if note_given admin_notes
                                then save_offline_message d2 (m_user_id m) (the admin_notes)
                                       ''admin_note'' now
                                else d2)
                      in (d3, Inr True)))))"

section \<open>Moderation and task administration (admin_bot.py)\<close>

text \<open>
  \<open>Database._get_connection\<close> is attached by admin_bot.py and returns
  \<open>sqlite3.connect(self.db_path)\<close>; each function below is the effect on the store of the
  statements the handler commits. Replies to the administrator are not modelled.
\<close>

definition approve_report :: "db \<Rightarrow> int \<Rightarrow> db" where
  "approve_report d submission_id =
     d\<lparr>submissions :=
          map (\<lambda>s. if s_id s = submission_id then s\<lparr>s_status := ''approved''\<rparr> else s)
            (submissions d)\<rparr>"

definition reject_report :: "db \<Rightarrow> int \<Rightarrow> db" where
  "reject_report d submission_id =
     d\<lparr>submissions :=
          map (\<lambda>s. if s_id s = submission_id then s\<lparr>s_status := ''rejected''\<rparr> else s)
            (submissions d)\<rparr>"

text \<open>
  \<open>_confirm_delete_task\<close>: \<open>DELETE FROM submissions WHERE task_id = ?\<close>, then
  \<open>DELETE FROM tasks WHERE id = ?\<close>, one commit.
\<close>

definition confirm_delete_task :: "db \<Rightarrow> int \<Rightarrow> db" where
  "confirm_delete_task d task_id =
     d\<lparr>submissions := filter (\<lambda>s. s_task_id s \<noteq> task_id) (submissions d),
       tasks := filter (\<lambda>t. t_id t \<noteq> task_id) (tasks d)\<rparr>"

text \<open>
  \<open>handle_edit_deadline\<close>. The handler first turns the administrator's text into a new
  deadline (keywords, \<open>strptime\<close>, calendar arithmetic), or rejects it and returns without
  writing; that part is the argument \<open>parsed\<close>. What follows is the single statement
  \<open>UPDATE tasks SET deadline = ? WHERE id = ?\<close>.
\<close>

datatype deadline_input = Rejected | New_deadline "instant option"

definition handle_edit_deadline ::
  "db \<Rightarrow> bool \<Rightarrow> int option \<Rightarrow> deadline_input \<Rightarrow> db" where
  "handle_edit_deadline d is_admin editing_task_id parsed =
     (if \<not> is_admin then d
      else case editing_task_id of
        None \<Rightarrow> d
      | Some task_id \<Rightarrow>
          (case parsed of
             Rejected \<Rightarrow> d
           | New_deadline new_deadline \<Rightarrow>
               d\<lparr>tasks := map (\<lambda>t. if t_id t = task_id
                                     then t\<lparr>t_deadline := new_deadline\<rparr> else t)
                              (tasks d)\<rparr>))"

text \<open>The other \<open>UPDATE tasks\<close> statements of the task editor.\<close>

definition edit_task_title :: "db \<Rightarrow> int \<Rightarrow> ustr \<Rightarrow> db" where
  "edit_task_title d task_id new_title =
     d\<lparr>tasks := map (\<lambda>t. if t_id t = task_id then t\<lparr>t_title := new_title\<rparr> else t)
                    (tasks d)\<rparr>"

definition edit_task_description :: "db \<Rightarrow> int \<Rightarrow> jval \<Rightarrow> db" where
  "edit_task_description d task_id new_description =
     d\<lparr>tasks := map (\<lambda>t. if t_id t = task_id
                           then t\<lparr>t_description := new_description\<rparr> else t)
                    (tasks d)\<rparr>"

definition edit_task_link :: "db \<Rightarrow> int \<Rightarrow> jval \<Rightarrow> db" where
  "edit_task_link d task_id new_link =
     d\<lparr>tasks := map (\<lambda>t. if t_id t = task_id then t\<lparr>t_link := new_link\<rparr> else t)
                    (tasks d)\<rparr>"

definition toggle_task_status :: "db \<Rightarrow> int \<Rightarrow> db" where
  "toggle_task_status d task_id =
     (case find (\<lambda>t. t_id t = task_id) (tasks d) of
        None \<Rightarrow> d
      | Some cur \<Rightarrow>
          d\<lparr>tasks := map (\<lambda>t. if t_id t = task_id
                                then t\<lparr>t_is_open := \<not> t_is_open cur\<rparr> else t)
                         (tasks d)\<rparr>)"

definition edit_task_open_date :: "db \<Rightarrow> int \<Rightarrow> instant \<Rightarrow> instant \<Rightarrow> db" where
  "edit_task_open_date d task_id new_open_date now =
     d\<lparr>tasks := map (\<lambda>t. if t_id t = task_id
                           then t\<lparr>t_open_date := Some new_open_date,
                                  t_is_open := (new_open_date \<le> now)\<rparr>
                           else t)
                    (tasks d)\<rparr>"

text \<open>The default of \<open>data_dict.get('content', ...)\<close> in \<open>_assign_potential_to_task\<close>.\<close>

definition NO_CONTENT :: ustr where
  "NO_CONTENT =
     [1053, 1077, 1090, 32, 1089, 1086, 1076, 1077, 1088, 1078, 1080, 1084, 1086, 1075, 1086]"

text \<open>
  \<open>_assign_potential_to_task\<close>: the task is looked up first and the handler returns when
  it is gone; then the inbox entry; then one \<open>INSERT\<close> with the constants \<open>'text'\<close>,
  \<open>'pending'\<close> and \<open>True\<close> for type, status and \<open>is_on_time\<close>, and the \<open>UPDATE\<close> of the
  entry. Any exception of the last part is caught (\<open>except Exception\<close>).
\<close>

definition assign_potential_to_task :: "db \<Rightarrow> int \<Rightarrow> int \<Rightarrow> instant \<Rightarrow> db" where
  "assign_potential_to_task d report_id task_id now =
     (case find (\<lambda>t. t_id t = task_id) (tasks d) of
        None \<Rightarrow> d
      | Some task \<Rightarrow>
          (case find (\<lambda>m. m_id m = report_id) (offline_messages d) of
             None \<Rightarrow> d
           | Some m \<Rightarrow>
               (case m_data m of
                  Not_json s \<Rightarrow> d
                | Json_other s \<Rightarrow> d
                | Json_object data_dict \<Rightarrow>
                    (let content = dict_get data_dict ''content'' (JStr NO_CONTENT);
                         file_id = dict_get data_dict ''file_id'' JNull
                     in if \<not> (bindable content \<and> bindable file_id) then d
                        else
                          (let d1 = d\<lparr>submissions := submissions d @
                                       [\<lparr>s_id = next_submission_id d,
                                         s_user_id = m_user_id m, s_task_id = t_id task,
                                         s_date = now, s_type = JStr (ascii ''text''),
                                         s_content = content, s_file_id = file_id,
                                         s_file_path = JNull, s_status = ''pending'',
                                         s_is_on_time = True\<rparr>],
                                     next_submission_id := next_submission_id d + 1\<rparr>
                           in mark_offline_message_processed d1 (m_id m))))))"

text \<open>\<open>data.split('_')\<close> on the callback data of a button; 95 is the underscore.\<close>

fun split_on :: "nat \<Rightarrow> ustr \<Rightarrow> ustr list" where
  "split_on c [] = [[]]"
| "split_on c (x # xs) =
     (if x = c then [] # split_on c xs
      else (case split_on c xs of p # ps \<Rightarrow> (x # p) # ps | [] \<Rightarrow> [[x]]))"

text \<open>
  \<open>_mark_potential_processed\<close> and \<open>_delete_potential_report\<close> start with
  \<open>report_id = int(data.split('_')[1])\<close>. \<open>int_of_str\<close> is Python's \<open>int()\<close> on a string
  (\<open>None\<close> where it raises \<open>ValueError\<close>); the subscript raises \<open>IndexError\<close> on data
  without an underscore. Nothing is written before the id is known. The router calls
  them with the data \<open>mark_processed_<id>\<close> and \<open>delete_potential_<id>\<close>, whose second
  part is the word \<open>processed\<close> or \<open>potential\<close>.
\<close>

definition mark_potential_processed ::
  "(ustr \<Rightarrow> int option) \<Rightarrow> db \<Rightarrow> ustr \<Rightarrow> db \<times> (py_error + unit)" where
  "mark_potential_processed int_of_str d data =
     (case split_on 95 data of
        p0 # p1 # ps \<Rightarrow>
          (case int_of_str p1 of
             None \<Rightarrow> (d, Inl ValueError)
           | Some report_id \<Rightarrow> (mark_offline_message_processed d report_id, Inr ()))
      | _ \<Rightarrow> (d, Inl IndexError))"

definition delete_potential_report ::
  "(ustr \<Rightarrow> int option) \<Rightarrow> db \<Rightarrow> ustr \<Rightarrow> db \<times> (py_error + unit)" where
  "delete_potential_report int_of_str d data =
     (case split_on 95 data of
        p0 # p1 # ps \<Rightarrow>
          (case int_of_str p1 of
             None \<Rightarrow> (d, Inl ValueError)
           | Some report_id \<Rightarrow>
               (case find (\<lambda>m. m_id m = report_id) (offline_messages d) of
                  None \<Rightarrow> (d, Inr ())
                | Some potential_report \<Rightarrow>
                    (d\<lparr>offline_messages :=
                         filter (\<lambda>m. m_id m \<noteq> m_id potential_report) (offline_messages d)\<rparr>,
                     Inr ())))
      | _ \<Rightarrow> (d, Inl IndexError))"

text \<open>
  \<open>_perform_log_cleanup\<close>. The two \<open>DELETE FROM offline_messages\<close> and the \<open>DELETE FROM
  user_states\<close> run on one connection; the first of them opens a transaction. The
  statement \<open>VACUUM\<close> that follows is refused inside a transaction (\<open>OperationalError\<close>),
  the exception leaves the \<open>with\<close> block and the deletions are rolled back: the store is
  as before. The age tests of SQLite (\<open>received_date < date('now', '-30 days')\<close>,
  \<open>last_updated < datetime('now', '-7 days')\<close>) are the two predicates.
\<close>

definition perform_log_cleanup ::
  "db \<Rightarrow> (message_row \<Rightarrow> bool) \<Rightarrow> (int \<Rightarrow> bool) \<Rightarrow> db \<times> (py_error + unit)" where
  "perform_log_cleanup d old_message old_state =
     (let uncommitted =
            d\<lparr>offline_messages :=
                 filter (\<lambda>m. \<not> (m_processed m \<and> old_message m))
                   (filter (\<lambda>m. \<not> (m_type m = ''potential_report'' \<and> m_processed m))
                      (offline_messages d)),
              user_states := (\<lambda>u. if old_state u then None else user_states d u)\<rparr>;
          rolled_back = d
      in (rolled_back, Inl OperationalError))"

text \<open>Every statement of the program that writes to the store, as one operation each.\<close>

datatype store_op =
    Save_user_state int int pydict
  | Clear_user_state int
  | Save_offline_message int message_data string instant
  | Mark_offline_message_processed int
  | Add_user int jval jval jval
  | Update_user_registration int jval jval jval jval jval
  | Update_user_name int jval jval
  | Add_task ustr jval jval jval "instant option" bool "instant option"
  | Submit_task int int jval jval jval jval instant
  | Mark_potential_report_as_submission int int "message_data option" instant
  | Approve_report int
  | Reject_report int
  | Confirm_delete_task int
  | Handle_edit_deadline bool "int option" deadline_input
  | Edit_task_title int ustr
  | Edit_task_description int jval
  | Edit_task_link int jval
  | Toggle_task_status int
  | Edit_task_open_date int instant instant
  | Assign_potential_to_task int int instant
  | Mark_potential_processed "ustr \<Rightarrow> int option" ustr
  | Delete_potential_report "ustr \<Rightarrow> int option" ustr
  | Perform_log_cleanup "message_row \<Rightarrow> bool" "int \<Rightarrow> bool"

fun apply_op :: "store_op \<Rightarrow> db \<Rightarrow> db" where
  "apply_op (Save_user_state u s c) d = save_user_state d u s c"
| "apply_op (Clear_user_state u) d = clear_user_state d u"
| "apply_op (Save_offline_message u m t now) d = save_offline_message d u m t now"
| "apply_op (Mark_offline_message_processed i) d = mark_offline_message_processed d i"
| "apply_op (Add_user u a b c) d = add_user d u a b c"
| "apply_op (Update_user_registration u a b c e f) d = update_user_registration d u a b c e f"
| "apply_op (Update_user_name u a b) d = update_user_name d u a b"
| "apply_op (Add_task a b c e f g h) d = add_task d a b c e f g h"
| "apply_op (Submit_task u t a b c e now) d = fst (submit_task d u t a b c e now)"
| "apply_op (Mark_potential_report_as_submission m t n now) d =
     fst (mark_potential_report_as_submission d m t n now)"
| "apply_op (Approve_report i) d = approve_report d i"
| "apply_op (Reject_report i) d = reject_report d i"
| "apply_op (Confirm_delete_task t) d = confirm_delete_task d t"
| "apply_op (Handle_edit_deadline a t p) d = handle_edit_deadline d a t p"
| "apply_op (Edit_task_title t x) d = edit_task_title d t x"
| "apply_op (Edit_task_description t x) d = edit_task_description d t x"
| "apply_op (Edit_task_link t x) d = edit_task_link d t x"
| "apply_op (Toggle_task_status t) d = toggle_task_status d t"
| "apply_op (Edit_task_open_date t x now) d = edit_task_open_date d t x now"
| "apply_op (Assign_potential_to_task r t now) d = assign_potential_to_task d r t now"
| "apply_op (Mark_potential_processed f x) d = fst (mark_potential_processed f d x)"
| "apply_op (Delete_potential_report f x) d = fst (delete_potential_report f d x)"
| "apply_op (Perform_log_cleanup p q) d = fst (perform_log_cleanup d p q)"

text \<open>The \<open>is_on_time\<close> flag stored for the submission with a given id.\<close>

definition on_time_flag :: "db \<Rightarrow> int \<Rightarrow> bool option" where
  "on_time_flag d i = map_option s_is_on_time (find (\<lambda>s. s_id s = i) (submissions d))"

text \<open>
  Primary keys: the ids of the stored submissions are distinct and below the next id
  that \<open>AUTOINCREMENT\<close> hands out.
\<close>

definition submission_ids_ok :: "db \<Rightarrow> bool" where
  "submission_ids_ok d =
     (distinct (map s_id (submissions d))
      \<and> list_all (\<lambda>s. s_id s < next_submission_id d) (submissions d))"


section \<open>The conversation engine (bot.py)\<close>

text \<open>The states of the conversation handlers; \<open>ConversationHandler.END\<close> is \<open>-1\<close>.\<close>

abbreviation (input) IDLE :: int where "IDLE \<equiv> 0"
abbreviation (input) REGISTRATION_FIRST_NAME :: int where "REGISTRATION_FIRST_NAME \<equiv> 1"
abbreviation (input) REGISTRATION_LAST_NAME :: int where "REGISTRATION_LAST_NAME \<equiv> 2"
abbreviation (input) PARTICIPATION_TYPE :: int where "PARTICIPATION_TYPE \<equiv> 3"
abbreviation (input) FAMILY_MEMBERS_COUNT :: int where "FAMILY_MEMBERS_COUNT \<equiv> 4"
abbreviation (input) CHILDREN_INFO :: int where "CHILDREN_INFO \<equiv> 5"
abbreviation (input) SUPPORT_MESSAGE :: int where "SUPPORT_MESSAGE \<equiv> 10"
abbreviation (input) TASK_SUBMISSION :: int where "TASK_SUBMISSION \<equiv> 20"
abbreviation (input) EDIT_FIRST_NAME :: int where "EDIT_FIRST_NAME \<equiv> 30"
abbreviation (input) EDIT_LAST_NAME :: int where "EDIT_LAST_NAME \<equiv> 31"
abbreviation (input) END :: int where "END \<equiv> - 1"

text \<open>
  The literal texts that the handlers compare a message with or store, as code points:
  the eleven buttons of the main menu and of the profile screen, the two participation
  buttons, and the default contents of attachments without a caption.
\<close>

definition MENU_RULES :: ustr where
  "MENU_RULES = [128203, 32, 1055, 1086, 1083, 1086, 1078, 1077, 1085, 1080, 1077, 32,
     1086, 1073, 32, 1080, 1075, 1088, 1077]"

definition MENU_INSTRUCTIONS :: ustr where
  "MENU_INSTRUCTIONS = [128214, 32, 1048, 1085, 1089, 1090, 1088, 1091, 1082, 1094, 1080,
     1103, 32, 1087, 1086, 32, 1087, 1088, 1086, 1093, 1086, 1078, 1076, 1077, 1085, 1080,
     1102]"

definition MENU_SUBMIT :: ustr where
  "MENU_SUBMIT = [128228, 32, 1054, 1090, 1087, 1088, 1072, 1074, 1080, 1090, 1100, 32,
     1079, 1072, 1076, 1072, 1085, 1080, 1077, 32, 1085, 1072, 32, 1087, 1088, 1086, 1074,
     1077, 1088, 1082, 1091]"

definition MENU_BANK :: ustr where
  "MENU_BANK = [127974, 32, 1041, 1072, 1085, 1082, 32, 1079, 1072, 1076, 1072, 1085, 1080,
     1081]"

definition MENU_RESULT :: ustr where
  "MENU_RESULT = [128202, 32, 1052, 1086, 1081, 32, 1088, 1077, 1079, 1091, 1083, 1100,
     1090, 1072, 1090]"

definition MENU_PROFILE :: ustr where
  "MENU_PROFILE = [128100, 32, 1048, 1079, 1084, 1077, 1085, 1080, 1090, 1100, 32, 1087,
     1088, 1086, 1092, 1080, 1083, 1100]"

definition MENU_ABOUT :: ustr where
  "MENU_ABOUT = [127807, 32, 1054, 32, 1044, 1074, 1080, 1078, 1077, 1085, 1080, 1080, 32,
     1076, 1088, 1091, 1079, 1077, 1081, 32, 1079, 1072, 1087, 1086, 1074, 1077, 1076, 1085,
     1099, 1093, 32, 1086, 1089, 1090, 1088, 1086, 1074, 1086, 1074]"

definition MENU_MAIN :: ustr where
  "MENU_MAIN = [127968, 32, 1043, 1083, 1072, 1074, 1085, 1086, 1077, 32, 1084, 1077, 1085,
     1102]"

definition MENU_EDIT_FIRST :: ustr where
  "MENU_EDIT_FIRST = [9999, 65039, 32, 1048, 1079, 1084, 1077, 1085, 1080, 1090, 1100, 32,
     1080, 1084, 1103]"

definition MENU_EDIT_LAST :: ustr where
  "MENU_EDIT_LAST = [9999, 65039, 32, 1048, 1079, 1084, 1077, 1085, 1080, 1090, 1100, 32,
     1092, 1072, 1084, 1080, 1083, 1080, 1102]"

definition MENU_SUPPORT :: ustr where
  "MENU_SUPPORT = [127384, 32, 1054, 1073, 1088, 1072, 1097, 1077, 1085, 1080, 1077, 32,
     1074, 32, 1087, 1086, 1076, 1076, 1077, 1088, 1078, 1082, 1091]"

definition BTN_INDIVIDUAL :: ustr where
  "BTN_INDIVIDUAL = [128100, 32, 1048, 1085, 1076, 1080, 1074, 1080, 1076, 1091, 1072, 1083,
     1100, 1085, 1086]"

definition BTN_FAMILY :: ustr where
  "BTN_FAMILY = [128104, 8205, 128105, 8205, 128103, 8205, 128102, 32, 1057, 1077, 1084,
     1100, 1077, 1081]"

definition PHOTO_NO_CAPTION :: ustr where
  "PHOTO_NO_CAPTION = [1060, 1086, 1090, 1086, 32, 1073, 1077, 1079, 32, 1087, 1086, 1076,
     1087, 1080, 1089, 1080]"

definition VIDEO_NO_CAPTION :: ustr where
  "VIDEO_NO_CAPTION = [1042, 1080, 1076, 1077, 1086, 32, 1073, 1077, 1079, 32, 1087, 1086,
     1076, 1087, 1080, 1089, 1080]"

definition DOC_PREFIX :: ustr where
  "DOC_PREFIX = [1044, 1086, 1082, 1091, 1084, 1077, 1085, 1090, 58, 32]"

definition PHOTO_REPORT :: ustr where
  "PHOTO_REPORT = [1060, 1086, 1090, 1086, 45, 1086, 1090, 1095, 1077, 1090]"

definition VIDEO_REPORT :: ustr where
  "VIDEO_REPORT = [1042, 1080, 1076, 1077, 1086, 45, 1086, 1090, 1095, 1077, 1090]"

text \<open>\<open>str.strip()\<close>: the white space of Python's \<open>str.isspace\<close> is removed at both ends.\<close>

definition is_space :: "nat \<Rightarrow> bool" where
  "is_space c =
     ((9 \<le> c \<and> c \<le> 13) \<or> (28 \<le> c \<and> c \<le> 32) \<or> c = 133 \<or> c = 160 \<or> c = 5760
      \<or> (8192 \<le> c \<and> c \<le> 8202) \<or> c = 8232 \<or> c = 8233 \<or> c = 8239 \<or> c = 8287
      \<or> c = 12288)"

definition strip :: "ustr \<Rightarrow> ustr" where
  "strip s = rev (dropWhile is_space (rev (dropWhile is_space s)))"

text \<open>
  An outgoing \<open>reply_text\<close> or \<open>edit_message_text\<close>: a tag naming the literal message of
  the source and the values interpolated into it. The wording and the keyboards are
  rendering and are not modelled.
\<close>

type_synonym reply = "string \<times> jval list"

text \<open>
  What a handler leaves behind: the store, \<open>context.user_data\<close>, the replies sent, and the
  value returned (\<open>None\<close> for a bare \<open>return\<close>) or the exception that left the handler.
  Every call of the store commits on its own, so the writes made before an exception
  stay. The store itself is assumed to work: errors of SQLite are outside the model.
\<close>

record result =
  r_db :: db
  r_user_data :: pydict
  r_replies :: "reply list"
  r_return :: "py_error + int option"

text \<open>\<open>_should_show_july_21_message\<close>: before 21 July 2025, 00:00 Moscow time.\<close>

definition should_show_july_21_message :: "instant \<Rightarrow> bool" where
  "should_show_july_21_message now = (now < 1753045200000000)"

text \<open>
  \<open>context.user_data.get('invalid_attempts', 0) + 1\<close>; adding 1 to a string, \<open>None\<close> or a
  dict raises \<open>TypeError\<close>.
\<close>

definition next_attempt :: "pydict \<Rightarrow> py_error + jval" where
  "next_attempt user_data =
     (case user_data ''invalid_attempts'' of
        None \<Rightarrow> Inr (JInt 1)
      | Some (JInt n) \<Rightarrow> Inr (JInt (n + 1))
      | Some (JBool b) \<Rightarrow> Inr (JInt ((if b then 1 else 0) + 1))
      | Some _ \<Rightarrow> Inl TypeError)"

text \<open>
  \<open>_process_offline_messages\<close>: every unprocessed message of the user is marked
  processed, except one whose payload decodes to a JSON value without \<open>get\<close> while its
  type makes the loop call \<open>data.get\<close> (the \<open>AttributeError\<close> is caught by the outer
  \<open>except\<close> and the message is skipped).
\<close>

definition process_offline_messages :: "db \<Rightarrow> int \<Rightarrow> db" where
  "process_offline_messages d user_id =
     foldl (\<lambda>d' m.
              (case m_data m of
                 Json_other s \<Rightarrow>
                   if m_type m \<in> {''text'', ''photo'', ''video'', ''document''} then d'
                   else mark_offline_message_processed d' (m_id m)
               | _ \<Rightarrow> mark_offline_message_processed d' (m_id m)))
       d (get_offline_messages d user_id)"

text \<open>
  \<open>_continue_from_state\<close>. The branch for \<open>TASK_SUBMISSION\<close> reads the variable
  \<open>current_context\<close>, which is not defined in this function: \<open>NameError\<close>.
\<close>

definition continue_from_state :: "db \<Rightarrow> pydict \<Rightarrow> int \<Rightarrow> int \<Rightarrow> result" where
  "continue_from_state d user_data user_id state =
     (if state = REGISTRATION_LAST_NAME then
        \<lparr>r_db = d, r_user_data = user_data, r_replies = [(''prompt_last_name'', [])],
         r_return = Inr (Some REGISTRATION_LAST_NAME)\<rparr>
      else if state = REGISTRATION_FIRST_NAME then
        \<lparr>r_db = d, r_user_data = user_data,
         r_replies = [(''prompt_first_name'', [dict_get user_data ''last_name'' (JStr [])])],
         r_return = Inr (Some REGISTRATION_FIRST_NAME)\<rparr>
      else if state = PARTICIPATION_TYPE then
        \<lparr>r_db = d, r_user_data = user_data,
         r_replies = [(''prompt_participation_type'',
                       [dict_get user_data ''first_name'' (JStr []),
                        dict_get user_data ''last_name'' (JStr [])])],
         r_return = Inr (Some PARTICIPATION_TYPE)\<rparr>
      else if state = FAMILY_MEMBERS_COUNT then
        \<lparr>r_db = d, r_user_data = user_data, r_replies = [(''prompt_family_members_count'', [])],
         r_return = Inr (Some FAMILY_MEMBERS_COUNT)\<rparr>
      else if state = CHILDREN_INFO then
        \<lparr>r_db = d, r_user_data = user_data,
         r_replies = [(''prompt_children_info'',
                       [dict_get user_data ''family_members_count'' (JInt 1)])],
         r_return = Inr (Some CHILDREN_INFO)\<rparr>
      else if state = TASK_SUBMISSION then
        \<lparr>r_db = d, r_user_data = user_data, r_replies = [], r_return = Inl NameError\<rparr>
      else if state = EDIT_FIRST_NAME then
        \<lparr>r_db = d, r_user_data = user_data, r_replies = [(''prompt_edit_first_name'', [])],
         r_return = Inr (Some EDIT_FIRST_NAME)\<rparr>
      else if state = EDIT_LAST_NAME then
        \<lparr>r_db = d, r_user_data = user_data, r_replies = [(''prompt_edit_last_name'', [])],
         r_return = Inr (Some EDIT_LAST_NAME)\<rparr>
      else
        \<lparr>r_db = clear_user_state d user_id, r_user_data = user_data, r_replies = [],
         r_return = Inr (Some END)\<rparr>)"

text \<open>
  \<open>start\<close>. The arguments after the user id are \<open>user.username\<close>, \<open>user.first_name\<close> and
  \<open>user.last_name\<close> of the sender. \<open>user_data[5]\<close> is the column \<open>last_name\<close>.
\<close>

definition start :: "db \<Rightarrow> pydict \<Rightarrow> int \<Rightarrow> jval \<Rightarrow> jval \<Rightarrow> jval \<Rightarrow> instant \<Rightarrow> result" where
  "start d user_data user_id uname tg_first tg_last now =
     (let d1 = add_user d user_id uname tg_first tg_last;
          d2 = process_offline_messages d1 user_id;
          (saved_state, saved_context) = get_user_state d2 user_id
      in if saved_state \<noteq> IDLE \<and> \<not> is_user_registered d2 user_id then
           (let restored = user_data ++ saved_context;
                r = continue_from_state d2 restored user_id saved_state
            in r\<lparr>r_replies := (''session_restore'', []) # r_replies r\<rparr>)
         else if is_user_registered d2 user_id then
           \<lparr>r_db = clear_user_state d2 user_id, r_user_data = user_data,
            r_replies = [(''welcome_back'',
                          [case get_user d2 user_id of Some u \<Rightarrow> last_name u | None \<Rightarrow> JNull,
                           JBool (should_show_july_21_message now)])],
            r_return = Inr (Some END)\<rparr>
         else
           \<lparr>r_db = save_user_state d2 user_id REGISTRATION_LAST_NAME Map.empty,
            r_user_data = user_data,
            r_replies = [(''welcome_new'', [JBool (should_show_july_21_message now)])],
            r_return = Inr (Some REGISTRATION_LAST_NAME)\<rparr>)"

text \<open>
  The registration steps. \<open>text\<close> is \<open>update.message.text\<close>, \<open>date\<close> is
  \<open>update.message.date\<close>, \<open>now\<close> the time of the store. Each attempt is first logged in
  the inbox.
\<close>

definition registration_last_name ::
  "db \<Rightarrow> pydict \<Rightarrow> int \<Rightarrow> ustr \<Rightarrow> instant \<Rightarrow> instant \<Rightarrow> result" where
  "registration_last_name d user_data user_id text date now =
     (let last_name = strip text;
          d1 = save_offline_message d user_id
                 (Json_object [''step'' \<mapsto> JStr (ascii ''last_name''),
                               ''input'' \<mapsto> JStr last_name,
                               ''valid'' \<mapsto> JBool (length last_name \<ge> 2),
                               ''date'' \<mapsto> JTime date])
                 ''registration_input'' now
      in if last_name = [] \<or> length last_name < 2 then
           (case next_attempt user_data of
              Inl e \<Rightarrow> \<lparr>r_db = d1, r_user_data = user_data, r_replies = [], r_return = Inl e\<rparr>
            | Inr n \<Rightarrow>
                \<lparr>r_db = save_user_state d1 user_id REGISTRATION_LAST_NAME
                          [''invalid_attempts'' \<mapsto> n,
                           ''last_invalid_input'' \<mapsto> JStr last_name,
                           ''timestamp'' \<mapsto> JTime date],
                 r_user_data = user_data,
                 r_replies = [(''invalid_last_name'', [])],
                 r_return = Inr (Some REGISTRATION_LAST_NAME)\<rparr>)
         else
           (let user_data1 = user_data(''last_name'' \<mapsto> JStr last_name)
            in \<lparr>r_db = save_user_state d1 user_id REGISTRATION_FIRST_NAME
                         (user_data1 ++ [''last_name_confirmed'' \<mapsto> JBool True,
                                         ''timestamp'' \<mapsto> JTime date]),
                r_user_data = user_data1,
                r_replies = [(''accepted_last_name'', [JStr last_name])],
                r_return = Inr (Some REGISTRATION_FIRST_NAME)\<rparr>))"

definition registration_first_name ::
  "db \<Rightarrow> pydict \<Rightarrow> int \<Rightarrow> ustr \<Rightarrow> instant \<Rightarrow> instant \<Rightarrow> result" where
  "registration_first_name d user_data user_id text date now =
     (let first_name = strip text;
          d1 = save_offline_message d user_id
                 (Json_object [''step'' \<mapsto> JStr (ascii ''first_name''),
                               ''input'' \<mapsto> JStr first_name,
                               ''valid'' \<mapsto> JBool (length first_name \<ge> 2),
                               ''current_data'' \<mapsto> JDict user_data,
                               ''date'' \<mapsto> JTime date])
                 ''registration_input'' now
      in if first_name = [] \<or> length first_name < 2 then
           (case next_attempt user_data of
              Inl e \<Rightarrow> \<lparr>r_db = d1, r_user_data = user_data, r_replies = [], r_return = Inl e\<rparr>
            | Inr n \<Rightarrow>
                \<lparr>r_db = save_user_state d1 user_id REGISTRATION_FIRST_NAME
                          (user_data ++ [''invalid_attempts'' \<mapsto> n,
                                         ''last_invalid_input'' \<mapsto> JStr first_name,
                                         ''timestamp'' \<mapsto> JTime date]),
                 r_user_data = user_data,
                 r_replies = [(''invalid_first_name'', [])],
                 r_return = Inr (Some REGISTRATION_FIRST_NAME)\<rparr>)
         else
           (let user_data1 = user_data(''first_name'' \<mapsto> JStr first_name);
                d2 = save_user_state d1 user_id PARTICIPATION_TYPE
                       (user_data1 ++ [''first_name_confirmed'' \<mapsto> JBool True,
                                       ''timestamp'' \<mapsto> JTime date])
            in case user_data1 ''last_name'' of
                 None \<Rightarrow>
                   \<lparr>r_db = d2, r_user_data = user_data1, r_replies = [], r_return = Inl KeyError\<rparr>
               | Some ln \<Rightarrow>
                   \<lparr>r_db = d2, r_user_data = user_data1,
                    r_replies = [(''accepted_first_name'', [JStr first_name, ln])],
                    r_return = Inr (Some PARTICIPATION_TYPE)\<rparr>))"

text \<open>
  \<open>_complete_registration\<close>. The three subscripts raise \<open>KeyError\<close> on a missing key,
  before anything is written.
\<close>

definition complete_registration :: "db \<Rightarrow> pydict \<Rightarrow> int \<Rightarrow> instant \<Rightarrow> result" where
  "complete_registration d user_data user_id now =
     (case (user_data ''first_name'', user_data ''last_name'',
            user_data ''participation_type'') of
        (Some fname, Some lname, Some ptype) \<Rightarrow>
          (let fcount = dict_get user_data ''family_members_count'' (JInt 1);
               children = dict_get user_data ''children_info'' JNull
           in if \<not> (bindable fname \<and> bindable lname \<and> bindable ptype
                      \<and> bindable fcount \<and> bindable children)
              then \<lparr>r_db = d, r_user_data = user_data, r_replies = [],
                    r_return = Inl InterfaceError\<rparr>
              else
                \<lparr>r_db = clear_user_state
                          (update_user_registration d user_id fname lname ptype fcount children)
                          user_id,
                 r_user_data = Map.empty,
                 r_replies =
                   [(''congratulations'',
                     [fname, lname, ptype] @
                     (if ptype = JStr (ascii ''individual'') then []
                      else [fcount, children]) @
                     [JBool (should_show_july_21_message now)])],
                 r_return = Inr None\<rparr>)
      | _ \<Rightarrow> \<lparr>r_db = d, r_user_data = user_data, r_replies = [], r_return = Inl KeyError\<rparr>)"

definition participation_type_step ::
  "db \<Rightarrow> pydict \<Rightarrow> int \<Rightarrow> ustr \<Rightarrow> instant \<Rightarrow> instant \<Rightarrow> result" where
  "participation_type_step d user_data user_id text date now =
     (let d1 = save_offline_message d user_id
                 (Json_object [''step'' \<mapsto> JStr (ascii ''participation_type''),
                               ''choice'' \<mapsto> JStr text,
                               ''current_data'' \<mapsto> JDict user_data,
                               ''date'' \<mapsto> JTime date])
                 ''registration_choice'' now
      in if text = BTN_INDIVIDUAL then
           (let user_data1 = user_data(''participation_type'' \<mapsto> JStr (ascii ''individual''));
                d2 = save_user_state d1 user_id IDLE
                       (user_data1 ++ [''participation_confirmed'' \<mapsto> JBool True,
                                       ''ready_for_completion'' \<mapsto> JBool True,
                                       ''timestamp'' \<mapsto> JTime date]);
                r = complete_registration d2 user_data1 user_id now
            in case r_return r of
                 Inl e \<Rightarrow> r
               | Inr v \<Rightarrow> r\<lparr>r_return := Inr (Some END)\<rparr>)
         else if text = BTN_FAMILY then
           (let user_data1 = user_data(''participation_type'' \<mapsto> JStr (ascii ''family''))
            in \<lparr>r_db = save_user_state d1 user_id FAMILY_MEMBERS_COUNT
                         (user_data1 ++ [''participation_confirmed'' \<mapsto> JBool True,
                                         ''timestamp'' \<mapsto> JTime date]),
                r_user_data = user_data1,
                r_replies = [(''ask_family_members_count'', [])],
                r_return = Inr (Some FAMILY_MEMBERS_COUNT)\<rparr>)
         else
           (case next_attempt user_data of
              Inl e \<Rightarrow> \<lparr>r_db = d1, r_user_data = user_data, r_replies = [], r_return = Inl e\<rparr>
            | Inr n \<Rightarrow>
                \<lparr>r_db = save_user_state d1 user_id PARTICIPATION_TYPE
                          (user_data ++ [''invalid_choice'' \<mapsto> JStr text,
                                         ''invalid_attempts'' \<mapsto> n,
                                         ''timestamp'' \<mapsto> JTime date]),
                 r_user_data = user_data,
                 r_replies = [(''invalid_participation_type'', [])],
                 r_return = Inr (Some PARTICIPATION_TYPE)\<rparr>))"

text \<open>
  \<open>family_members_count\<close>. \<open>int_of_str\<close> is Python's \<open>int()\<close> on a string: \<open>None\<close> where it
  raises \<open>ValueError\<close>. A value outside 1..10 raises the same \<open>ValueError\<close>.
\<close>

definition family_members_count_step ::
  "(ustr \<Rightarrow> int option) \<Rightarrow> db \<Rightarrow> pydict \<Rightarrow> int \<Rightarrow> ustr \<Rightarrow> instant \<Rightarrow> instant \<Rightarrow> result" where
  "family_members_count_step int_of_str d user_data user_id text date now =
     (let count_input = strip text;
          d1 = save_offline_message d user_id
                 (Json_object [''step'' \<mapsto> JStr (ascii ''family_members_count''),
                               ''input'' \<mapsto> JStr count_input,
                               ''current_data'' \<mapsto> JDict user_data,
                               ''date'' \<mapsto> JTime date])
                 ''registration_input'' now;
          parsed = (case int_of_str count_input of
                      None \<Rightarrow> None
                    | Some n \<Rightarrow> if n < 1 \<or> n > 10 then None else Some n)
      in case parsed of
           None \<Rightarrow>
             (case next_attempt user_data of
                Inl e \<Rightarrow> \<lparr>r_db = d1, r_user_data = user_data, r_replies = [], r_return = Inl e\<rparr>
              | Inr n \<Rightarrow>
                  \<lparr>r_db = save_user_state d1 user_id FAMILY_MEMBERS_COUNT
                            (user_data ++ [''invalid_count_input'' \<mapsto> JStr count_input,
                                           ''invalid_attempts'' \<mapsto> n,
                                           ''timestamp'' \<mapsto> JTime date]),
                   r_user_data = user_data,
                   r_replies = [(''invalid_family_members_count'', [])],
                   r_return = Inr (Some FAMILY_MEMBERS_COUNT)\<rparr>)
         | Some n \<Rightarrow>
             (let user_data1 = user_data(''family_members_count'' \<mapsto> JInt n)
              in \<lparr>r_db = save_user_state d1 user_id CHILDREN_INFO
                           (user_data1 ++ [''family_count_confirmed'' \<mapsto> JBool True,
                                           ''timestamp'' \<mapsto> JTime date]),
                  r_user_data = user_data1,
                  r_replies = [(''accepted_family_members_count'', [JInt n])],
                  r_return = Inr (Some CHILDREN_INFO)\<rparr>))"

text \<open>
  The profile edit steps. On a name that is too short the handler only replies; the
  store is not written.
\<close>

definition send_main_menu :: "db \<Rightarrow> int \<Rightarrow> db \<times> reply list" where
  "send_main_menu d user_id = (clear_user_state d user_id, [(''main_menu'', [])])"

definition handle_edit_first_name :: "db \<Rightarrow> pydict \<Rightarrow> int \<Rightarrow> ustr \<Rightarrow> result" where
  "handle_edit_first_name d user_data user_id text =
     (let new_first_name = strip text
      in if text = MENU_MAIN then
           (let (d1, replies) = send_main_menu (clear_user_state d user_id) user_id
            in \<lparr>r_db = d1, r_user_data = user_data, r_replies = replies,
                r_return = Inr (Some END)\<rparr>)
         else if new_first_name = [] \<or> length new_first_name < 2 then
           \<lparr>r_db = d, r_user_data = user_data, r_replies = [(''invalid_edit_first_name'', [])],
            r_return = Inr (Some EDIT_FIRST_NAME)\<rparr>
         else
           (case get_user d user_id of
              Some u \<Rightarrow>
                \<lparr>r_db = clear_user_state
                          (update_user_name d user_id (JStr new_first_name) (last_name u))
                          user_id,
                 r_user_data = user_data,
                 r_replies = [(''first_name_changed'', [JStr new_first_name])],
                 r_return = Inr (Some END)\<rparr>
            | None \<Rightarrow>
                \<lparr>r_db = d, r_user_data = user_data, r_replies = [(''save_failed'', [])],
                 r_return = Inr (Some END)\<rparr>))"

definition handle_edit_last_name :: "db \<Rightarrow> pydict \<Rightarrow> int \<Rightarrow> ustr \<Rightarrow> result" where
  "handle_edit_last_name d user_data user_id text =
     (let new_last_name = strip text
      in if text = MENU_MAIN then
           (let (d1, replies) = send_main_menu (clear_user_state d user_id) user_id
            in \<lparr>r_db = d1, r_user_data = user_data, r_replies = replies,
                r_return = Inr (Some END)\<rparr>)
         else if new_last_name = [] \<or> length new_last_name < 2 then
           \<lparr>r_db = d, r_user_data = user_data, r_replies = [(''invalid_edit_last_name'', [])],
            r_return = Inr (Some EDIT_LAST_NAME)\<rparr>
         else
           (case get_user d user_id of
              Some u \<Rightarrow>
                \<lparr>r_db = clear_user_state
                          (update_user_name d user_id (first_name u) (JStr new_last_name))
                          user_id,
                 r_user_data = user_data,
                 r_replies = [(''last_name_changed'', [JStr new_last_name])],
                 r_return = Inr (Some END)\<rparr>
            | None \<Rightarrow>
                \<lparr>r_db = d, r_user_data = user_data, r_replies = [(''save_failed'', [])],
                 r_return = Inr (Some END)\<rparr>))"

text \<open>
  The content of an inbound message: a text, or an attachment with its optional caption,
  its Telegram file id and, for a document, its optional file name. The result of
  \<open>_download_and_save_file\<close> (the local path, or \<open>None\<close> when the download failed) is an
  input of the handlers.
\<close>

datatype content =
    Text ustr
  | Photo "ustr option" ustr
  | Video "ustr option" ustr
  | Document "ustr option" ustr "ustr option"
  | Other_content

text \<open>\<open>caption or default\<close>, and \<open>str\<close> of an optional file name inside an f-string.\<close>

definition caption_or :: "ustr option \<Rightarrow> ustr \<Rightarrow> ustr" where
  "caption_or caption dflt =
     (case caption of None \<Rightarrow> dflt | Some c \<Rightarrow> if c = [] then dflt else c)"

definition opt_str :: "ustr option \<Rightarrow> jval" where
  "opt_str x = (case x of None \<Rightarrow> JNull | Some s \<Rightarrow> JStr s)"

definition fmt_opt :: "ustr option \<Rightarrow> ustr" where
  "fmt_opt x = (case x of None \<Rightarrow> ascii ''None'' | Some s \<Rightarrow> s)"

text \<open>
  \<open>handle_task_submission_content\<close>. The selected task id is always written by the bot as
  an integer (\<open>int(data.split("_")[-1])\<close>, kept by the JSON round trip); another value
  under that key is outside the model. The \<open>except\<close> branch around \<open>submit_task\<close> needs a
  failing store and is not reachable here.
\<close>

definition handle_task_submission_content ::
  "db \<Rightarrow> pydict \<Rightarrow> int \<Rightarrow> content \<Rightarrow> instant \<Rightarrow> instant \<Rightarrow> ustr option \<Rightarrow> result" where
  "handle_task_submission_content d user_data user_id msg date now downloaded =
     (let (current_state, current_context) = get_user_state d user_id;
          selected = (case user_data ''selected_task_id'' of
                        Some v \<Rightarrow> Some v
                      | None \<Rightarrow> current_context ''selected_task_id'')
      in case selected of
           None \<Rightarrow>
             \<lparr>r_db = d, r_user_data = user_data, r_replies = [(''choose_task_first'', [])],
              r_return = Inr (Some END)\<rparr>
         | Some (JInt task_id) \<Rightarrow>
             (let user_data1 = user_data(''selected_task_id'' \<mapsto> JInt task_id);
                  d1 = save_user_state d user_id TASK_SUBMISSION
                         [''selected_task_id'' \<mapsto> JInt task_id,
                          ''submission_attempt'' \<mapsto> JTime now];
                  parts =
                    (case msg of
                       Text t \<Rightarrow>
                         if t \<noteq> [] then Some (''text'', JStr t, JNull, JNull) else None
                     | Photo caption fid \<Rightarrow>
                         Some (''photo'', JStr (caption_or caption PHOTO_REPORT), JStr fid,
                               opt_str downloaded)
                     | Video caption fid \<Rightarrow>
                         Some (''video'', JStr (caption_or caption VIDEO_REPORT), JStr fid,
                               opt_str downloaded)
                     | Document caption fid fname \<Rightarrow>
                         Some (''document'',
                               JStr (caption_or caption (DOC_PREFIX @ fmt_opt fname)),
                               JStr fid, opt_str downloaded)
                     | Other_content \<Rightarrow> None)
              in case parts of
                   None \<Rightarrow>
                     \<lparr>r_db = d1, r_user_data = user_data1,
                      r_replies = [(''unsupported_content'', [])],
                      r_return = Inr (Some END)\<rparr>
                 | Some (submission_type, content, file_id, file_path) \<Rightarrow>
                     (let submission_data =
                            (if submission_type = ''text'' then
                               [''type'' \<mapsto> JStr (ascii ''text''), ''content'' \<mapsto> content,
                                ''task_id'' \<mapsto> JInt task_id, ''date'' \<mapsto> JTime date]
                             else
                               [''type'' \<mapsto> JStr (ascii submission_type),
                                ''content'' \<mapsto> content, ''file_id'' \<mapsto> file_id,
                                ''file_path'' \<mapsto> file_path, ''task_id'' \<mapsto> JInt task_id,
                                ''date'' \<mapsto> JTime date]);
                          d2 = save_offline_message d1 user_id (Json_object submission_data)
                                 (''submission_'' @ submission_type) now;
                          (d3, is_on_time) =
                            submit_task d2 user_id task_id (JStr (ascii submission_type))
                              content file_id file_path now
                      in \<lparr>r_db = clear_user_state d3 user_id, r_user_data = Map.empty,
                          r_replies = [(if is_on_time then ''submitted_on_time''
                                        else ''submitted_late'', [])],
                          r_return = Inr (Some END)\<rparr>))
         | Some other \<Rightarrow>
             \<lparr>r_db = d, r_user_data = user_data, r_replies = [], r_return = Inl Outside_model\<rparr>)"

text \<open>
  The screens behind the menu buttons. They read the store and reply; what they show is
  rendering. \<open>_send_main_menu\<close> clears the state again, the two \<open>_start_edit\<close> functions
  save the edit step.
\<close>

definition show_profile_edit :: "db \<Rightarrow> int \<Rightarrow> reply list" where
  "show_profile_edit d user_id =
     (case get_user d user_id of
        None \<Rightarrow> [(''profile_not_found'', [])]
      | Some u \<Rightarrow> [(''profile'', [first_name u, last_name u, participation_type u,
                                   family_members_count u, children_info u])])"

definition start_edit_first_name :: "db \<Rightarrow> int \<Rightarrow> db \<times> reply list" where
  "start_edit_first_name d user_id =
     (save_user_state d user_id EDIT_FIRST_NAME Map.empty, [(''prompt_edit_first_name'', [])])"

definition start_edit_last_name :: "db \<Rightarrow> int \<Rightarrow> db \<times> reply list" where
  "start_edit_last_name d user_id =
     (save_user_state d user_id EDIT_LAST_NAME Map.empty, [(''prompt_edit_last_name'', [])])"

text \<open>
  \<open>handle_message\<close>, the last handler for a text. The message is first filed as
  \<open>text_processing\<close>; \<open>temp_msg_id\<close> is the id of the last unprocessed message of the user
  and that message is marked processed at the end of the menu dispatch. A text that is
  no button is filed as \<open>text_unknown\<close> and, when \<open>len(text) > 10\<close>, once more as
  \<open>potential_report\<close>.
\<close>

definition handle_message ::
  "db \<Rightarrow> pydict \<Rightarrow> int \<Rightarrow> ustr \<Rightarrow> instant \<Rightarrow> instant \<Rightarrow> result" where
  "handle_message d user_data user_id text date now =
     (if \<not> is_user_registered d user_id then
        \<lparr>r_db = save_offline_message d user_id
                  (Json_object [''text'' \<mapsto> JStr text, ''date'' \<mapsto> JTime date,
                                ''context'' \<mapsto> JStr (ascii ''unregistered_user'')])
                  ''text_unregistered'' now,
         r_user_data = user_data, r_replies = [(''register_first'', [])],
         r_return = Inr None\<rparr>
      else
        (let d1 = save_offline_message d user_id
                    (Json_object [''text'' \<mapsto> JStr text, ''date'' \<mapsto> JTime date,
                                  ''context'' \<mapsto> JStr (ascii ''main_menu'')])
                    ''text_processing'' now;
             temp_msg_id = (case get_offline_messages d1 user_id of
                              [] \<Rightarrow> None
                            | m # ms \<Rightarrow> Some (m_id (last (m # ms))));
             (saved_state, saved_context) = get_user_state d1 user_id
         in if saved_state = EDIT_FIRST_NAME then
              handle_edit_first_name d1 (user_data ++ saved_context) user_id text
            else if saved_state = EDIT_LAST_NAME then
              handle_edit_last_name d1 (user_data ++ saved_context) user_id text
            else if saved_state = TASK_SUBMISSION then
              handle_task_submission_content d1 (user_data ++ saved_context) user_id
                (Text text) date now None
            else
              (let (d2, replies) =
                     (if text = MENU_RULES then
                        (clear_user_state d1 user_id, [(''game_rules'', [])])
                      else if text = MENU_INSTRUCTIONS then
                        (clear_user_state d1 user_id, [(''instructions'', [])])
                      else if text = MENU_SUBMIT then
                        (clear_user_state d1 user_id, [(''task_submission_menu'', [])])
                      else if text = MENU_BANK then
                        (clear_user_state d1 user_id, [(''tasks_bank'', [])])
                      else if text = MENU_RESULT then
                        (clear_user_state d1 user_id, [(''user_results'', [])])
                      else if text = MENU_PROFILE then
                        (clear_user_state d1 user_id,
                         show_profile_edit (clear_user_state d1 user_id) user_id)
                      else if text = MENU_ABOUT then
                        (clear_user_state d1 user_id, [(''about_movement'', [])])
                      else if text = MENU_MAIN then
                        send_main_menu (clear_user_state d1 user_id) user_id
                      else if text = MENU_EDIT_FIRST then
                        start_edit_first_name d1 user_id
                      else if text = MENU_EDIT_LAST then
                        start_edit_last_name d1 user_id
                      else if text = MENU_SUPPORT then
                        (clear_user_state d1 user_id, [(''support_info'', [])])
                      else
                        (let d1a = save_offline_message d1 user_id
                               (Json_object [''text'' \<mapsto> JStr text, ''date'' \<mapsto> JTime date,
                                             ''context'' \<mapsto> JStr (ascii ''unknown_command'')])
                               ''text_unknown'' now
                         in if length text > 10 then
                              (save_offline_message d1a user_id
                                 (Json_object
                                    [''user_id'' \<mapsto> JInt user_id, ''content'' \<mapsto> JStr text,
                                     ''type'' \<mapsto> JStr (ascii ''text''), ''date'' \<mapsto> JTime date,
                                     ''context'' \<mapsto>
                                       JStr (ascii ''potential_report_out_of_context'')])
                                 ''potential_report'' now,
                               [(''not_accepted_warning'', [])])
                            else (d1a, [(''unknown_command'', [])])))
               in \<lparr>r_db = (case temp_msg_id of
                             None \<Rightarrow> d2
                           | Some i \<Rightarrow> if i \<noteq> 0 then mark_offline_message_processed d2 i
                                       else d2),
                   r_user_data = user_data, r_replies = replies, r_return = Inr None\<rparr>)))"

text \<open>
  The handlers for attachments. An unregistered sender only gets the reply that asks
  for registration (its text says that the attachment was saved); no statement is run.
\<close>

definition handle_photo_message ::
  "db \<Rightarrow> pydict \<Rightarrow> int \<Rightarrow> ustr option \<Rightarrow> ustr \<Rightarrow> instant \<Rightarrow> instant \<Rightarrow> ustr option \<Rightarrow> result" where
  "handle_photo_message d user_data user_id caption fid date now downloaded =
     (if \<not> is_user_registered d user_id then
        \<lparr>r_db = d, r_user_data = user_data, r_replies = [(''register_first_photo_saved'', [])],
         r_return = Inr None\<rparr>
      else
        (let (saved_state, saved_context) = get_user_state d user_id
         in if saved_state = TASK_SUBMISSION then
              handle_task_submission_content d (user_data ++ saved_context) user_id
                (Photo caption fid) date now downloaded
            else
              \<lparr>r_db = save_offline_message d user_id
                        (Json_object
                           [''user_id'' \<mapsto> JInt user_id,
                            ''content'' \<mapsto> JStr (caption_or caption PHOTO_NO_CAPTION),
                            ''type'' \<mapsto> JStr (ascii ''photo''), ''file_id'' \<mapsto> JStr fid,
                            ''file_path'' \<mapsto> opt_str downloaded, ''date'' \<mapsto> JTime date,
                            ''context'' \<mapsto> JStr (ascii ''potential_report_out_of_context'')])
                        ''potential_report'' now,
               r_user_data = user_data, r_replies = [(''photo_received'', [])],
               r_return = Inr None\<rparr>))"

definition handle_video_message ::
  "db \<Rightarrow> pydict \<Rightarrow> int \<Rightarrow> ustr option \<Rightarrow> ustr \<Rightarrow> instant \<Rightarrow> instant \<Rightarrow> ustr option \<Rightarrow> result" where
  "handle_video_message d user_data user_id caption fid date now downloaded =
     (if \<not> is_user_registered d user_id then
        \<lparr>r_db = d, r_user_data = user_data, r_replies = [(''register_first_video_saved'', [])],
         r_return = Inr None\<rparr>
      else
        (let (saved_state, saved_context) = get_user_state d user_id
         in if saved_state = TASK_SUBMISSION then
              handle_task_submission_content d (user_data ++ saved_context) user_id
                (Video caption fid) date now downloaded
            else
              \<lparr>r_db = save_offline_message d user_id
                        (Json_object
                           [''user_id'' \<mapsto> JInt user_id,
                            ''content'' \<mapsto> JStr (caption_or caption VIDEO_NO_CAPTION),
                            ''type'' \<mapsto> JStr (ascii ''video''), ''file_id'' \<mapsto> JStr fid,
                            ''file_path'' \<mapsto> opt_str downloaded, ''date'' \<mapsto> JTime date,
                            ''context'' \<mapsto> JStr (ascii ''potential_report_out_of_context'')])
                        ''potential_report'' now,
               r_user_data = user_data, r_replies = [(''video_received'', [])],
               r_return = Inr None\<rparr>))"

definition handle_document_message ::
  "db \<Rightarrow> pydict \<Rightarrow> int \<Rightarrow> ustr option \<Rightarrow> ustr \<Rightarrow> ustr option \<Rightarrow> instant \<Rightarrow> instant
     \<Rightarrow> ustr option \<Rightarrow> result" where
  "handle_document_message d user_data user_id caption fid fname date now downloaded =
     (if \<not> is_user_registered d user_id then
        \<lparr>r_db = d, r_user_data = user_data,
         r_replies = [(''register_first_document_saved'', [])], r_return = Inr None\<rparr>
      else
        (let (saved_state, saved_context) = get_user_state d user_id
         in if saved_state = TASK_SUBMISSION then
              handle_task_submission_content d (user_data ++ saved_context) user_id
                (Document caption fid fname) date now downloaded
            else
              \<lparr>r_db = save_offline_message d user_id
                        (Json_object
                           [''user_id'' \<mapsto> JInt user_id,
                            ''content'' \<mapsto>
                              JStr (caption_or caption (DOC_PREFIX @ fmt_opt fname)),
                            ''type'' \<mapsto> JStr (ascii ''document''), ''file_id'' \<mapsto> JStr fid,
                            ''file_path'' \<mapsto> opt_str downloaded,
                            ''filename'' \<mapsto> opt_str fname, ''date'' \<mapsto> JTime date,
                            ''context'' \<mapsto> JStr (ascii ''potential_report_out_of_context'')])
                        ''potential_report'' now,
               r_user_data = user_data, r_replies = [(''document_received'', [])],
               r_return = Inr None\<rparr>))"

text \<open>
  A small store used to evaluate the operations: user 1, registered and in the
  submission step for task 7; user 2, who has entered a last name and not yet a first
  name; task 7 with a deadline at instant 1000 and task 8 without a deadline, one
  submission for each; and the inbox entry 42 holding an unprocessed text that user 1
  sent outside the submission flow.
\<close>

definition sample_user :: user_row where
  "sample_user =
     \<lparr>username = JStr (ascii ''eco''), telegram_first_name = JStr (ascii ''Ann''),
      telegram_last_name = JNull, first_name = JStr (ascii ''Anna''),
      last_name = JStr (ascii ''Lee''), participation_type = JStr (ascii ''family''),
      family_members_count = JInt 3, children_info = JStr (ascii ''5 and 8''),
      registration_completed = True\<rparr>"

definition sample_task :: task_row where
  "sample_task =
     \<lparr>t_id = 7, t_title = ascii ''Observation'', t_description = JNull, t_link = JNull,
      t_is_open = True, t_week_number = JNull, t_deadline = Some 1000,
      t_open_date = None\<rparr>"

definition sample_payload :: pydict where
  "sample_payload =
     [''content'' \<mapsto> JStr (ascii ''Planted 3 trees today''),
      ''type'' \<mapsto> JStr (ascii ''text'')]"

definition sample_entry :: message_row where
  "sample_entry =
     \<lparr>m_id = 42, m_user_id = 1, m_data = Json_object sample_payload,
      m_type = ''potential_report'', m_received = 10, m_processed = False\<rparr>"

definition sample_newcomer :: user_row where
  "sample_newcomer =
     \<lparr>username = JNull, telegram_first_name = JStr (ascii ''Bo''),
      telegram_last_name = JNull, first_name = JNull, last_name = JNull,
      participation_type = JStr (ascii ''individual''), family_members_count = JInt 1,
      children_info = JNull, registration_completed = False\<rparr>"

definition sample_db :: db where
  "sample_db =
     \<lparr>users = [1 \<mapsto> sample_user, 2 \<mapsto> sample_newcomer],
      user_states =
        [1 \<mapsto> (20, [''selected_task_id'' \<mapsto> JInt 7]),
         2 \<mapsto> (1, [''last_name'' \<mapsto> JStr (ascii ''Lee''),
                    ''last_name_confirmed'' \<mapsto> JBool True])],
      tasks = [sample_task, sample_task\<lparr>t_id := 8, t_deadline := None\<rparr>],
      next_task_id = 9,
      submissions =
        [\<lparr>s_id = 1, s_user_id = 1, s_task_id = 7, s_date = 900, s_type = JStr (ascii ''text''),
          s_content = JStr (ascii ''report''), s_file_id = JNull, s_file_path = JNull,
          s_status = ''pending'', s_is_on_time = True\<rparr>,
         \<lparr>s_id = 2, s_user_id = 1, s_task_id = 8, s_date = 950, s_type = JStr (ascii ''text''),
          s_content = JStr (ascii ''other''), s_file_id = JNull, s_file_path = JNull,
          s_status = ''pending'', s_is_on_time = False\<rparr>],
      next_submission_id = 3,
      offline_messages = [sample_entry],
      next_message_id = 43\<rparr>"

section \<open>Properties of the store\<close>

lemma sample_find7: "find (\<lambda>t. t_id t = 7) (tasks sample_db) = Some sample_task"
  by (simp add: sample_db_def sample_task_def)

lemma sample_find9: "find (\<lambda>t. t_id t = 9) (tasks sample_db) = None"
  by (simp add: sample_db_def sample_task_def)

text \<open>
  C2. The deadline evaluator answers true exactly when the task has no deadline or the
  submission instant is at or before the deadline: a submission at the deadline instant
  is on time, one microsecond later is late, and a task without a deadline, or a task id
  with no stored row, is always on time.
\<close>

theorem check_submission_deadline_inclusive:
  "(find (\<lambda>t. t_id t = task_id) (tasks d) = Some t \<longrightarrow>
      check_submission_deadline d task_id now =
        (t_deadline t = None \<or> (\<exists>dl. t_deadline t = Some dl \<and> now \<le> dl)))
   \<and> (find (\<lambda>t. t_id t = task_id) (tasks d) = Some t \<and> t_deadline t = Some dl \<longrightarrow>
        check_submission_deadline d task_id dl
        \<and> \<not> check_submission_deadline d task_id (dl + 1))
   \<and> (find (\<lambda>t. t_id t = task_id) (tasks d) = None \<longrightarrow>
        check_submission_deadline d task_id now)"
  by (auto simp: check_submission_deadline_def split: option.splits)

theorem check_submission_deadline_inclusive_witness:
  "find (\<lambda>t. t_id t = 7) (tasks sample_db) = Some sample_task
   \<and> t_deadline sample_task = Some 1000
   \<and> check_submission_deadline sample_db 7 1000
   \<and> \<not> check_submission_deadline sample_db 7 1001
   \<and> \<not> check_submission_deadline sample_db 7 2000
   \<and> find (\<lambda>t. t_id t = 9) (tasks sample_db) = None
   \<and> check_submission_deadline sample_db 9 2000"
  using check_submission_deadline_inclusive [of 7 sample_db sample_task 2000 1000]
        check_submission_deadline_inclusive [of 9 sample_db sample_task 2000 1000]
        sample_find7 sample_find9
  by (simp add: sample_task_def)

lemma find_append_None:
  "find P xs = None \<Longrightarrow> find P (xs @ ys) = find P ys"
  by (induction xs) (auto split: if_splits)

lemma find_append_Some: "find P xs = Some x \<Longrightarrow> find P (xs @ ys) = Some x"
  by (induction xs) (auto split: if_splits)

lemma find_map_status:
  "(\<And>s. s_id (f s) = s_id s) \<Longrightarrow>
   find (\<lambda>s. s_id s = i) (map f xs) = map_option f (find (\<lambda>s. s_id s = i) xs)"
  by (induction xs) auto

lemma find_filter_distinct:
  "distinct (map s_id xs) \<Longrightarrow> find (\<lambda>s. s_id s = i) xs = Some x \<Longrightarrow>
   find (\<lambda>s. s_id s = i) (filter Q xs) = (if Q x then Some x else None)"
proof (induction xs)
  case Nil
  then show ?case by simp
next
  case (Cons a xs)
  show ?case
  proof (cases "s_id a = i")
    case True
    with Cons.prems have ax: "a = x" by simp
    from Cons.prems True have "i \<notin> s_id ` set xs" by auto
    then have "find (\<lambda>s. s_id s = i) (filter Q xs) = None"
      by (auto simp: find_None_iff)
    with True ax show ?thesis by simp
  next
    case False
    with Cons show ?thesis by simp
  qed
qed

lemma submissions_mark_processed [simp]:
  "submissions (mark_offline_message_processed d i) = submissions d"
  by (simp add: mark_offline_message_processed_def)

lemma submissions_save_offline_message [simp]:
  "submissions (save_offline_message d u m t now) = submissions d"
  by (simp add: save_offline_message_def)

lemma next_sub_mark_processed [simp]:
  "next_submission_id (mark_offline_message_processed d i) = next_submission_id d"
  by (simp add: mark_offline_message_processed_def)

lemma next_sub_save_offline_message [simp]:
  "next_submission_id (save_offline_message d u m t now) = next_submission_id d"
  by (simp add: save_offline_message_def)

lemma promote_submissions:
  "submissions (fst (mark_potential_report_as_submission d m t n now)) = submissions d
   \<and> next_submission_id (fst (mark_potential_report_as_submission d m t n now)) = next_submission_id d
   \<or> (\<exists>row. s_id row = next_submission_id d
        \<and> submissions (fst (mark_potential_report_as_submission d m t n now)) = submissions d @ [row]
        \<and> next_submission_id (fst (mark_potential_report_as_submission d m t n now)) = next_submission_id d + 1)"
  by (simp add: mark_potential_report_as_submission_def Let_def
           split: option.splits message_data.splits)

lemma assign_submissions:
  "submissions (assign_potential_to_task d r t now) = submissions d
   \<and> next_submission_id (assign_potential_to_task d r t now) = next_submission_id d
   \<or> (\<exists>row. s_id row = next_submission_id d
        \<and> submissions (assign_potential_to_task d r t now) = submissions d @ [row]
        \<and> next_submission_id (assign_potential_to_task d r t now) = next_submission_id d + 1)"
  by (simp add: assign_potential_to_task_def Let_def
           split: option.splits message_data.splits)


lemma map_s_id_status:
  "map (s_id \<circ> (\<lambda>s. if s_id s = sid then s\<lparr>s_status := st\<rparr> else s)) xs = map s_id xs"
  by (induction xs) auto

lemma apply_op_cases:
  "(submissions (apply_op op d) = submissions d
      \<and> next_submission_id (apply_op op d) = next_submission_id d)
   \<or> (\<exists>st sid. submissions (apply_op op d)
          = map (\<lambda>s. if s_id s = sid then s\<lparr>s_status := st\<rparr> else s) (submissions d)
        \<and> next_submission_id (apply_op op d) = next_submission_id d)
   \<or> (\<exists>row. s_id row = next_submission_id d
        \<and> submissions (apply_op op d) = submissions d @ [row]
        \<and> next_submission_id (apply_op op d) = next_submission_id d + 1)
   \<or> (\<exists>t. op = Confirm_delete_task t
        \<and> submissions (apply_op op d) = filter (\<lambda>s. s_task_id s \<noteq> t) (submissions d)
        \<and> next_submission_id (apply_op op d) = next_submission_id d)"
proof (cases op)
  case (Submit_task u t a b c e now)
  then show ?thesis by (simp add: submit_task_def Let_def)
next
  case (Mark_potential_report_as_submission m t n now)
  then show ?thesis using promote_submissions [of d m t n now] by auto
next
  case (Assign_potential_to_task r t now)
  then show ?thesis using assign_submissions [of d r t now] by auto
next
  case (Approve_report i)
  then show ?thesis by (auto simp: approve_report_def)
next
  case (Reject_report i)
  then show ?thesis by (auto simp: reject_report_def)
next
  case (Confirm_delete_task t)
  then show ?thesis by (simp add: confirm_delete_task_def)
qed (simp_all add: save_user_state_def clear_user_state_def add_user_def
       update_user_registration_def update_user_name_def add_task_def
       handle_edit_deadline_def edit_task_title_def edit_task_description_def
       edit_task_link_def toggle_task_status_def edit_task_open_date_def
       mark_potential_processed_def delete_potential_report_def perform_log_cleanup_def
       Let_def split: option.splits list.splits deadline_input.splits)

text \<open>
  The two inbox buttons as the router passes them: the part that \<open>int()\<close> receives is a
  word, \<open>int()\<close> raises, and the store is not written. The cleanup never commits.
\<close>

lemma routed_mark_processed:
  "int_of_str (ascii ''processed'') = None \<Longrightarrow>
   mark_potential_processed int_of_str d (ascii ''mark_processed_'' @ report_id)
     = (d, Inl ValueError)"
  by (simp add: mark_potential_processed_def ascii_def split: list.splits)

lemma routed_delete_potential:
  "int_of_str (ascii ''potential'') = None \<Longrightarrow>
   delete_potential_report int_of_str d (ascii ''delete_potential_'' @ report_id)
     = (d, Inl ValueError)"
  by (simp add: delete_potential_report_def ascii_def split: list.splits)

lemma perform_log_cleanup_rolled_back:
  "perform_log_cleanup d old_message old_state = (d, Inl OperationalError)"
  by (simp add: perform_log_cleanup_def)

lemma ids_ok_step:
  assumes ok: "submission_ids_ok d"
  shows "submission_ids_ok (apply_op op d)"
  using apply_op_cases [of op d]
proof (elim disjE exE conjE)
  assume "submissions (apply_op op d) = submissions d"
    "next_submission_id (apply_op op d) = next_submission_id d"
  with ok show ?thesis by (simp add: submission_ids_ok_def)
next
  fix st sid
  assume a: "submissions (apply_op op d)
          = map (\<lambda>s. if s_id s = sid then s\<lparr>s_status := st\<rparr> else s) (submissions d)"
    "next_submission_id (apply_op op d) = next_submission_id d"
  with ok show ?thesis
    by (auto simp: submission_ids_ok_def list_all_iff map_s_id_status)
next
  fix row
  assume a: "s_id row = next_submission_id d"
    "submissions (apply_op op d) = submissions d @ [row]"
    "next_submission_id (apply_op op d) = next_submission_id d + 1"
  with ok show ?thesis
    by (fastforce simp: submission_ids_ok_def list_all_iff)
next
  fix t
  assume a: "submissions (apply_op op d) = filter (\<lambda>s. s_task_id s \<noteq> t) (submissions d)"
    "next_submission_id (apply_op op d) = next_submission_id d"
  with ok show ?thesis
    by (auto simp: submission_ids_ok_def list_all_iff distinct_map_filter)
qed

text \<open>
  C3. The \<open>is_on_time\<close> value of a stored submission is fixed when the row is inserted
  (\<open>submit_task\<close> stores the evaluator's answer for the submission instant) and no later
  operation on the store changes it: after any operation the submission either carries
  the same flag or has been deleted together with its task. In particular editing the
  task's deadline, approving and rejecting leave the flag as it was. The primary-key
  invariant that the statement assumes is kept by every operation.
\<close>

theorem is_on_time_immutable:
  assumes ok: "submission_ids_ok d" and flag: "on_time_flag d i = Some b"
  shows "(on_time_flag (apply_op op d) i = Some b
          \<or> (\<exists>t. op = Confirm_delete_task t) \<and> on_time_flag (apply_op op d) i = None)
       \<and> on_time_flag (handle_edit_deadline d is_admin task parsed) i = Some b
       \<and> on_time_flag (approve_report d sid) i = Some b
       \<and> on_time_flag (reject_report d sid) i = Some b
       \<and> on_time_flag (fst (submit_task d u t a c e f now)) (next_submission_id d)
           = Some (check_submission_deadline d t now)
       \<and> submission_ids_ok (apply_op op d)"
proof -
  from flag obtain x where x: "find (\<lambda>s. s_id s = i) (submissions d) = Some x"
      and xb: "s_is_on_time x = b"
    by (auto simp: on_time_flag_def)
  have status: "on_time_flag d' i = Some b"
    if "submissions d' = map (\<lambda>s. if s_id s = sid' then s\<lparr>s_status := st\<rparr> else s) (submissions d)"
    for d' sid' st
  proof -
    have "find (\<lambda>s. s_id s = i) (submissions d')
          = map_option (\<lambda>s. if s_id s = sid' then s\<lparr>s_status := st\<rparr> else s)
              (find (\<lambda>s. s_id s = i) (submissions d))"
      unfolding that by (rule find_map_status) simp
    with x xb show ?thesis by (simp add: on_time_flag_def)
  qed
  have step: "on_time_flag (apply_op op d) i = Some b
          \<or> (\<exists>t. op = Confirm_delete_task t) \<and> on_time_flag (apply_op op d) i = None"
    using apply_op_cases [of op d]
  proof (elim disjE exE conjE)
    assume "submissions (apply_op op d) = submissions d"
    with flag show ?thesis by (simp add: on_time_flag_def)
  next
    fix st sid'
    assume "submissions (apply_op op d)
          = map (\<lambda>s. if s_id s = sid' then s\<lparr>s_status := st\<rparr> else s) (submissions d)"
    then show ?thesis using status by blast
  next
    fix row
    assume "submissions (apply_op op d) = submissions d @ [row]"
    with x xb show ?thesis by (simp add: on_time_flag_def find_append_Some)
  next
    fix t
    assume a: "op = Confirm_delete_task t"
      "submissions (apply_op op d) = filter (\<lambda>s. s_task_id s \<noteq> t) (submissions d)"
    from ok have "distinct (map s_id (submissions d))" by (simp add: submission_ids_ok_def)
    from find_filter_distinct [OF this x, of "\<lambda>s. s_task_id s \<noteq> t"] a xb
    show ?thesis by (auto simp: on_time_flag_def)
  qed
  have edit: "on_time_flag (handle_edit_deadline d is_admin task parsed) i = Some b"
    using flag
    by (simp add: on_time_flag_def handle_edit_deadline_def
             split: option.splits deadline_input.splits)
  have appr: "on_time_flag (approve_report d sid) i = Some b"
    by (rule status [of _ sid "''approved''"]) (simp add: approve_report_def)
  have rej: "on_time_flag (reject_report d sid) i = Some b"
    by (rule status [of _ sid "''rejected''"]) (simp add: reject_report_def)
  have "find (\<lambda>s. s_id s = next_submission_id d) (submissions d) = None"
    using ok by (auto simp: submission_ids_ok_def list_all_iff find_None_iff)
  then have new: "on_time_flag (fst (submit_task d u t a c e f now)) (next_submission_id d)
           = Some (check_submission_deadline d t now)"
    by (simp add: on_time_flag_def submit_task_def Let_def find_append_None)
  from step edit appr rej new ids_ok_step [OF ok] show ?thesis by blast
qed

lemma sample_ids_ok: "submission_ids_ok sample_db"
  by (simp add: submission_ids_ok_def sample_db_def)

lemma sample_flag1: "on_time_flag sample_db 1 = Some True"
  by (simp add: on_time_flag_def sample_db_def)

theorem is_on_time_immutable_witness:
  "submission_ids_ok sample_db \<and> on_time_flag sample_db 1 = Some True
   \<and> on_time_flag (handle_edit_deadline sample_db True (Some 7) (New_deadline (Some 5))) 1
       = Some True
   \<and> on_time_flag (apply_op (Confirm_delete_task 8) sample_db) 1 = Some True
   \<and> on_time_flag (apply_op (Confirm_delete_task 7) sample_db) 1 = None
   \<and> on_time_flag (approve_report sample_db 1) 1 = Some True
   \<and> on_time_flag (reject_report sample_db 1) 1 = Some True
   \<and> on_time_flag (fst (submit_task sample_db 1 7 JNull JNull JNull JNull 1001)) 3
       = Some False"
  using is_on_time_immutable [OF sample_ids_ok sample_flag1, of "Confirm_delete_task 8"
          True "Some 7" "New_deadline (Some 5)" 1 1 7 JNull JNull JNull JNull 1001]
        sample_ids_ok sample_flag1
  by (simp add: on_time_flag_def confirm_delete_task_def sample_db_def sample_task_def
        check_submission_deadline_def)



text \<open>
  C8. Deleting task \<open>T\<close> removes, in one commit, every submission whose \<open>task_id\<close> is
  \<open>T\<close> and the task row itself, and nothing else: the submissions of other tasks and
  the other tasks stay as they were, in order, and when every submission referred to a
  stored task before the deletion, every remaining submission still does (no orphans).
\<close>

theorem confirm_delete_task_cascade:
  "list_all (\<lambda>s. s_task_id s \<noteq> T) (submissions (confirm_delete_task d T))
   \<and> filter (\<lambda>s. s_task_id s \<noteq> T) (submissions (confirm_delete_task d T))
       = filter (\<lambda>s. s_task_id s \<noteq> T) (submissions d)
   \<and> set (submissions (confirm_delete_task d T))
       = {s \<in> set (submissions d). s_task_id s \<noteq> T}
   \<and> list_all (\<lambda>t. t_id t \<noteq> T) (tasks (confirm_delete_task d T))
   \<and> filter (\<lambda>t. t_id t \<noteq> T) (tasks (confirm_delete_task d T))
       = filter (\<lambda>t. t_id t \<noteq> T) (tasks d)
   \<and> (list_all (\<lambda>s. \<exists>t \<in> set (tasks d). t_id t = s_task_id s) (submissions d) \<longrightarrow>
        list_all (\<lambda>s. \<exists>t \<in> set (tasks (confirm_delete_task d T)). t_id t = s_task_id s)
          (submissions (confirm_delete_task d T)))
   \<and> users (confirm_delete_task d T) = users d
   \<and> user_states (confirm_delete_task d T) = user_states d
   \<and> offline_messages (confirm_delete_task d T) = offline_messages d"
proof -
  have "list_all (\<lambda>s. \<exists>t \<in> set (tasks d). t_id t = s_task_id s) (submissions d) \<longrightarrow>
        list_all (\<lambda>s. \<exists>t \<in> set (tasks (confirm_delete_task d T)). t_id t = s_task_id s)
          (submissions (confirm_delete_task d T))"
    by (fastforce simp: confirm_delete_task_def list_all_iff)
  then show ?thesis
    by (auto simp: confirm_delete_task_def list_all_iff)
qed

theorem confirm_delete_task_cascade_witness:
  "list_all (\<lambda>s. \<exists>t \<in> set (tasks sample_db). t_id t = s_task_id s) (submissions sample_db)
   \<and> list_all (\<lambda>s. \<exists>t \<in> set (tasks (confirm_delete_task sample_db 7)). t_id t = s_task_id s)
          (submissions (confirm_delete_task sample_db 7))
   \<and> map s_id (submissions (confirm_delete_task sample_db 7)) = [2]
   \<and> map t_id (tasks (confirm_delete_task sample_db 7)) = [8]"
  using confirm_delete_task_cascade [of 7 sample_db]
  by (simp add: confirm_delete_task_def sample_db_def sample_task_def)

text \<open>
  C5 (evaluation of the code). Task 9 is not in the sample store.
  \<open>mark_potential_report_as_submission\<close> does not look the task up: the evaluator
  answers \<open>True\<close> for the missing row, a submission with the dangling \<open>task_id\<close> 9 is
  inserted and entry 42 is marked processed, and the call returns \<open>True\<close>. The
  administrator's handler \<open>_assign_potential_to_task\<close> checks the task first and leaves
  the store unchanged.
\<close>

theorem promotion_without_task:
  "find (\<lambda>t. t_id t = 9) (tasks sample_db) = None
   \<and> snd (mark_potential_report_as_submission sample_db 42 9 None 2000) = Inr True
   \<and> map (\<lambda>s. (s_id s, s_task_id s, s_is_on_time s))
        (submissions (fst (mark_potential_report_as_submission sample_db 42 9 None 2000)))
       = [(1, 7, True), (2, 8, False), (3, 9, True)]
   \<and> map (\<lambda>m. (m_id m, m_processed m))
        (offline_messages (fst (mark_potential_report_as_submission sample_db 42 9 None 2000)))
       = [(42, True)]
   \<and> assign_potential_to_task sample_db 42 9 2000 = sample_db"
  by (simp add: mark_potential_report_as_submission_def assign_potential_to_task_def
        mark_offline_message_processed_def check_submission_deadline_def dict_get_def
        sample_db_def sample_task_def sample_entry_def sample_payload_def Let_def)

text \<open>
  C4, as stated, fails: promoting entry 42 to task 7 twice succeeds twice and leaves two
  new submissions.
\<close>

theorem promotion_twice_counterexample:
  "snd (mark_potential_report_as_submission sample_db 42 7 None 500) = Inr True
   \<and> snd (mark_potential_report_as_submission
           (fst (mark_potential_report_as_submission sample_db 42 7 None 500)) 42 7 None 600)
       = Inr True
   \<and> length (submissions (fst (mark_potential_report_as_submission sample_db 42 7 None 500)))
       = length (submissions sample_db) + 1
   \<and> length (submissions (fst (mark_potential_report_as_submission
           (fst (mark_potential_report_as_submission sample_db 42 7 None 500)) 42 7 None 600)))
       = length (submissions sample_db) + 2"
  by (simp add: mark_potential_report_as_submission_def
        mark_offline_message_processed_def check_submission_deadline_def dict_get_def
        sample_db_def sample_task_def sample_entry_def sample_payload_def Let_def)


lemma find_map_m_id:
  "(\<And>m. m_id (f m) = m_id m) \<Longrightarrow>
   find (\<lambda>m. m_id m = i) (map f xs) = map_option f (find (\<lambda>m. m_id m = i) xs)"
  by (induction xs) auto

lemma find_mark_processed:
  "find (\<lambda>m. m_id m = i) (offline_messages d) = Some m \<Longrightarrow>
   find (\<lambda>m. m_id m = i) (offline_messages (mark_offline_message_processed d i))
     = Some (m\<lparr>m_processed := True\<rparr>)"
proof -
  assume a: "find (\<lambda>m. m_id m = i) (offline_messages d) = Some m"
  then have i: "m_id m = i" by (auto simp: find_Some_iff)
  have "find (\<lambda>m. m_id m = i)
          (map (\<lambda>m. if m_id m = i then m\<lparr>m_processed := True\<rparr> else m) (offline_messages d))
        = map_option (\<lambda>m. if m_id m = i then m\<lparr>m_processed := True\<rparr> else m)
            (find (\<lambda>m. m_id m = i) (offline_messages d))"
    by (rule find_map_m_id) simp
  with a i show ?thesis by (simp add: mark_offline_message_processed_def)
qed

lemma promotion_result:
  assumes m: "find (\<lambda>m. m_id m = message_id) (offline_messages d) = Some m"
      and data: "m_data m = Json_object data"
      and b: "bindable (dict_get data ''type'' (JStr (ascii ''text'')))"
             "bindable (dict_get data ''content'' (JStr []))"
             "bindable (dict_get data ''file_id'' JNull)"
             "bindable (dict_get data ''file_path'' JNull)"
  shows "snd (mark_potential_report_as_submission d message_id task_id admin_notes now) = Inr True"
    and "submissions (fst (mark_potential_report_as_submission d message_id task_id admin_notes now))
         = submissions d @
           [\<lparr>s_id = next_submission_id d, s_user_id = m_user_id m, s_task_id = task_id,
             s_date = now, s_type = dict_get data ''type'' (JStr (ascii ''text'')),
             s_content = dict_get data ''content'' (JStr []),
             s_file_id = dict_get data ''file_id'' JNull,
             s_file_path = dict_get data ''file_path'' JNull,
             s_status = ''approved'',
             s_is_on_time = check_submission_deadline d task_id now\<rparr>]"
    and "find (\<lambda>m. m_id m = message_id)
           (offline_messages (fst (mark_potential_report_as_submission d message_id task_id admin_notes now)))
         = Some (m\<lparr>m_processed := True\<rparr>)"
    and "tasks (fst (mark_potential_report_as_submission d message_id task_id admin_notes now)) = tasks d"
proof -
  let ?d1 = "d\<lparr>submissions := submissions d @
           [\<lparr>s_id = next_submission_id d, s_user_id = m_user_id m, s_task_id = task_id,
             s_date = now, s_type = dict_get data ''type'' (JStr (ascii ''text'')),
             s_content = dict_get data ''content'' (JStr []),
             s_file_id = dict_get data ''file_id'' JNull,
             s_file_path = dict_get data ''file_path'' JNull,
             s_status = ''approved'',
             s_is_on_time = check_submission_deadline d task_id now\<rparr>],
           next_submission_id := next_submission_id d + 1\<rparr>"
  let ?d2 = "mark_offline_message_processed ?d1 message_id"
  let ?d3 = "if note_given admin_notes
             then save_offline_message ?d2 (m_user_id m) (the admin_notes) ''admin_note'' now
             else ?d2"
  have r: "mark_potential_report_as_submission d message_id task_id admin_notes now = (?d3, Inr True)"
    using m data b by (simp add: mark_potential_report_as_submission_def Let_def)
  show "snd (mark_potential_report_as_submission d message_id task_id admin_notes now) = Inr True"
    by (simp add: r)
  show "submissions (fst (mark_potential_report_as_submission d message_id task_id admin_notes now))
         = submissions d @
           [\<lparr>s_id = next_submission_id d, s_user_id = m_user_id m, s_task_id = task_id,
             s_date = now, s_type = dict_get data ''type'' (JStr (ascii ''text'')),
             s_content = dict_get data ''content'' (JStr []),
             s_file_id = dict_get data ''file_id'' JNull,
             s_file_path = dict_get data ''file_path'' JNull,
             s_status = ''approved'',
             s_is_on_time = check_submission_deadline d task_id now\<rparr>]"
    by (simp add: r)
  have "offline_messages ?d1 = offline_messages d" by simp
  with m have "find (\<lambda>m. m_id m = message_id) (offline_messages ?d1) = Some m" by simp
  then have f2: "find (\<lambda>m. m_id m = message_id) (offline_messages ?d2)
                 = Some (m\<lparr>m_processed := True\<rparr>)"
    by (rule find_mark_processed)
  then have "find (\<lambda>m. m_id m = message_id) (offline_messages ?d3)
                 = Some (m\<lparr>m_processed := True\<rparr>)"
    by (simp add: save_offline_message_def find_append_Some)
  then show "find (\<lambda>m. m_id m = message_id)
           (offline_messages (fst (mark_potential_report_as_submission d message_id task_id admin_notes now)))
         = Some (m\<lparr>m_processed := True\<rparr>)"
    by (simp add: r)
  show "tasks (fst (mark_potential_report_as_submission d message_id task_id admin_notes now)) = tasks d"
    by (simp add: r save_offline_message_def mark_offline_message_processed_def)
qed

text \<open>
  C4 (amended). Each call of \<open>mark_potential_report_as_submission\<close> on a stored inbox
  entry whose payload is a JSON object, with values under type, content, file id and
  file path that SQLite can bind (anything but a nested object; true of every payload
  the bot writes), appends exactly one submission built from the payload (those four
  fields, with the defaults of \<open>data.get\<close>), with
  status \<open>approved\<close> and with \<open>is_on_time\<close> the answer of the deadline evaluator for the
  task's current deadline and the current time, sets the entry's \<open>processed\<close> flag and
  returns \<open>True\<close>. The call does not consult the \<open>processed\<close> flag: a repeated call on the
  same entry succeeds again and appends one more submission, evaluated at the time of
  that call.
\<close>

theorem promotion_appends_one_submission:
  assumes m: "find (\<lambda>m. m_id m = message_id) (offline_messages d) = Some m"
      and data: "m_data m = Json_object data"
      and b: "bindable (dict_get data ''type'' (JStr (ascii ''text'')))"
             "bindable (dict_get data ''content'' (JStr []))"
             "bindable (dict_get data ''file_id'' JNull)"
             "bindable (dict_get data ''file_path'' JNull)"
      and d': "d' = fst (mark_potential_report_as_submission d message_id task_id admin_notes now)"
      and d'': "d'' = fst (mark_potential_report_as_submission d' message_id task_id admin_notes' now')"
  shows "snd (mark_potential_report_as_submission d message_id task_id admin_notes now) = Inr True
       \<and> submissions d' = submissions d @
           [\<lparr>s_id = next_submission_id d, s_user_id = m_user_id m, s_task_id = task_id,
             s_date = now, s_type = dict_get data ''type'' (JStr (ascii ''text'')),
             s_content = dict_get data ''content'' (JStr []),
             s_file_id = dict_get data ''file_id'' JNull,
             s_file_path = dict_get data ''file_path'' JNull,
             s_status = ''approved'',
             s_is_on_time = check_submission_deadline d task_id now\<rparr>]
       \<and> find (\<lambda>m. m_id m = message_id) (offline_messages d') = Some (m\<lparr>m_processed := True\<rparr>)
       \<and> tasks d' = tasks d
       \<and> snd (mark_potential_report_as_submission d' message_id task_id admin_notes' now') = Inr True
       \<and> length (submissions d'') = length (submissions d) + 2
       \<and> s_is_on_time (last (submissions d'')) = check_submission_deadline d task_id now'"
proof -
  note first = promotion_result [OF m data b, of task_id admin_notes now, folded d']
  have data': "m_data (m\<lparr>m_processed := True\<rparr>) = Json_object data" using data by simp
  note second = promotion_result [OF first(3) data' b, of task_id admin_notes' now', folded d'']
  have "check_submission_deadline d' task_id now' = check_submission_deadline d task_id now'"
    using first(4) by (simp add: check_submission_deadline_def)
  with first second show ?thesis by simp
qed


lemma sample_find_entry:
  "find (\<lambda>m. m_id m = 42) (offline_messages sample_db) = Some sample_entry"
  by (simp add: sample_db_def sample_entry_def)

lemma sample_entry_data: "m_data sample_entry = Json_object sample_payload"
  by (simp add: sample_entry_def)

lemma sample_payload_bindable:
  "bindable (dict_get sample_payload ''type'' (JStr (ascii ''text'')))"
  "bindable (dict_get sample_payload ''content'' (JStr []))"
  "bindable (dict_get sample_payload ''file_id'' JNull)"
  "bindable (dict_get sample_payload ''file_path'' JNull)"
  by (simp_all add: sample_payload_def dict_get_def)

theorem promotion_appends_one_submission_witness:
  "find (\<lambda>m. m_id m = 42) (offline_messages sample_db) = Some sample_entry
   \<and> m_data sample_entry = Json_object sample_payload
   \<and> bindable (dict_get sample_payload ''type'' (JStr (ascii ''text'')))
   \<and> bindable (dict_get sample_payload ''content'' (JStr []))
   \<and> bindable (dict_get sample_payload ''file_id'' JNull)
   \<and> bindable (dict_get sample_payload ''file_path'' JNull)
   \<and> snd (mark_potential_report_as_submission sample_db 42 7 None 500) = Inr True
   \<and> length (submissions (fst (mark_potential_report_as_submission sample_db 42 7 None 500)))
       = 3
   \<and> s_is_on_time (last (submissions
         (fst (mark_potential_report_as_submission sample_db 42 7 None 500))))
   \<and> length (submissions (fst (mark_potential_report_as_submission
         (fst (mark_potential_report_as_submission sample_db 42 7 None 500))
         42 7 None 1500))) = 4
   \<and> \<not> s_is_on_time (last (submissions (fst (mark_potential_report_as_submission
         (fst (mark_potential_report_as_submission sample_db 42 7 None 500))
         42 7 None 1500))))"
  using promotion_appends_one_submission
          [OF sample_find_entry sample_entry_data sample_payload_bindable refl refl,
           of 7 None 500 None 1500]
        sample_find_entry sample_entry_data sample_payload_bindable
  by (simp add: sample_db_def sample_task_def check_submission_deadline_def)

section \<open>Properties of the conversation engine\<close>

lemma user_states_save_offline_message [simp]:
  "user_states (save_offline_message d u m t now) = user_states d"
  by (simp add: save_offline_message_def)

lemma get_user_state_save_user_state [simp]:
  "get_user_state (save_user_state d u s c) u = (s, c)"
  by (simp add: get_user_state_def save_user_state_def)

lemma mark_processed_frame [simp]:
  "users (mark_offline_message_processed d i) = users d"
  "user_states (mark_offline_message_processed d i) = user_states d"
  by (simp_all add: mark_offline_message_processed_def)

lemma foldl_mark_frame:
  "users (foldl (\<lambda>d' m.
              (case m_data m of
                 Json_other s \<Rightarrow>
                   if m_type m \<in> {''text'', ''photo'', ''video'', ''document''} then d'
                   else mark_offline_message_processed d' (m_id m)
               | _ \<Rightarrow> mark_offline_message_processed d' (m_id m))) d ms) = users d
   \<and> user_states (foldl (\<lambda>d' m.
              (case m_data m of
                 Json_other s \<Rightarrow>
                   if m_type m \<in> {''text'', ''photo'', ''video'', ''document''} then d'
                   else mark_offline_message_processed d' (m_id m)
               | _ \<Rightarrow> mark_offline_message_processed d' (m_id m))) d ms) = user_states d"
  by (induction ms arbitrary: d) (simp_all split: message_data.splits)

lemma process_offline_messages_frame [simp]:
  "users (process_offline_messages d u) = users d"
  "user_states (process_offline_messages d u) = user_states d"
  unfolding process_offline_messages_def using foldl_mark_frame by blast+

lemma add_user_frame [simp]:
  "user_states (add_user d u a b c) = user_states d"
  "is_user_registered (add_user d u a b c) u = is_user_registered d u"
  by (simp_all add: add_user_def is_user_registered_def split: option.splits)

lemma is_user_registered_cong:
  "users d' = users d \<Longrightarrow> is_user_registered d' u = is_user_registered d u"
  by (simp add: is_user_registered_def)

lemma get_user_state_cong:
  "user_states d' = user_states d \<Longrightarrow> get_user_state d' u = get_user_state d u"
  by (simp add: get_user_state_def)

lemma start_unregistered:
  assumes unreg: "\<not> is_user_registered d user_id"
      and st: "user_states d user_id = Some (state, saved_context)"
      and nz: "state \<noteq> IDLE"
  shows "start d user_data user_id uname tg_first tg_last now =
           (let r = continue_from_state
                      (process_offline_messages (add_user d user_id uname tg_first tg_last)
                         user_id)
                      (user_data ++ saved_context) user_id state
            in r\<lparr>r_replies := (''session_restore'', []) # r_replies r\<rparr>)"
proof -
  let ?d2 = "process_offline_messages (add_user d user_id uname tg_first tg_last) user_id"
  have g: "get_user_state ?d2 user_id = (state, saved_context)"
    using st by (simp add: get_user_state_def)
  have "is_user_registered ?d2 user_id
        = is_user_registered (add_user d user_id uname tg_first tg_last) user_id"
    by (rule is_user_registered_cong) simp
  with unreg have u: "\<not> is_user_registered ?d2 user_id" by simp
  show ?thesis using g u nz by (simp add: start_def Let_def)
qed

lemma start_registered:
  assumes reg: "is_user_registered d user_id"
  shows "start d user_data user_id uname tg_first tg_last now =
           (let d2 = process_offline_messages (add_user d user_id uname tg_first tg_last)
                       user_id
            in \<lparr>r_db = clear_user_state d2 user_id, r_user_data = user_data,
                r_replies = [(''welcome_back'',
                              [case get_user d2 user_id of Some u \<Rightarrow> last_name u | None \<Rightarrow> JNull,
                               JBool (should_show_july_21_message now)])],
                r_return = Inr (Some END)\<rparr>)"
proof -
  let ?d2 = "process_offline_messages (add_user d user_id uname tg_first tg_last) user_id"
  have "is_user_registered ?d2 user_id
        = is_user_registered (add_user d user_id uname tg_first tg_last) user_id"
    by (rule is_user_registered_cong) simp
  with reg have u: "is_user_registered ?d2 user_id" by simp
  show ?thesis using u by (simp add: start_def Let_def split: prod.splits)
qed


lemma continue_from_state_registration:
  assumes "state \<in> {REGISTRATION_FIRST_NAME, REGISTRATION_LAST_NAME, PARTICIPATION_TYPE,
                  FAMILY_MEMBERS_COUNT, CHILDREN_INFO, EDIT_FIRST_NAME, EDIT_LAST_NAME}"
  shows "r_db (continue_from_state d ud u state) = d"
    and "r_user_data (continue_from_state d ud u state) = ud"
    and "r_return (continue_from_state d ud u state) = Inr (Some state)"
    and "length (r_replies (continue_from_state d ud u state)) = 1"
    and "r_replies (continue_from_state d ud u state)
         = r_replies (continue_from_state d' ud u state)"
  using assms by (elim insertE emptyE; simp add: continue_from_state_def)+

lemma continue_from_state_keys:
  assumes "state \<in> {REGISTRATION_FIRST_NAME, REGISTRATION_LAST_NAME, PARTICIPATION_TYPE,
                  FAMILY_MEMBERS_COUNT, CHILDREN_INFO, EDIT_FIRST_NAME, EDIT_LAST_NAME}"
      and "state = REGISTRATION_FIRST_NAME \<longrightarrow> ''last_name'' \<in> dom c"
      and "state = PARTICIPATION_TYPE \<longrightarrow> ''first_name'' \<in> dom c \<and> ''last_name'' \<in> dom c"
      and "state = CHILDREN_INFO \<longrightarrow> ''family_members_count'' \<in> dom c"
  shows "r_replies (continue_from_state d (ud ++ c) u state)
         = r_replies (continue_from_state d c u state)"
  using assms
  by (elim insertE emptyE;
      auto simp: continue_from_state_def dict_get_def map_add_def split: option.splits)

text \<open>
  C1, as stated, fails for a registered user: user 1 of the sample store is in the
  submission step for task 7; \<open>start\<close> answers with the welcome of the main menu, ends the
  conversation and resets the persisted state to idle.
\<close>

theorem start_registered_counterexample:
  "is_user_registered sample_db 1
   \<and> get_user_state sample_db 1 = (TASK_SUBMISSION, [''selected_task_id'' \<mapsto> JInt 7])
   \<and> r_replies (start sample_db Map.empty 1 (JStr (ascii ''eco'')) (JStr (ascii ''Ann'')) JNull
        1800000000000000)
      = [(''welcome_back'', [JStr (ascii ''Lee''), JBool False])]
   \<and> r_return (start sample_db Map.empty 1 (JStr (ascii ''eco'')) (JStr (ascii ''Ann'')) JNull
        1800000000000000) = Inr (Some END)
   \<and> get_user_state (r_db (start sample_db Map.empty 1 (JStr (ascii ''eco''))
        (JStr (ascii ''Ann'')) JNull 1800000000000000)) 1 = (IDLE, Map.empty)"
proof -
  have reg: "is_user_registered sample_db 1"
    by (simp add: is_user_registered_def sample_db_def sample_user_def)
  have g: "get_user_state sample_db 1 = (TASK_SUBMISSION, [''selected_task_id'' \<mapsto> JInt 7])"
    by (simp add: get_user_state_def sample_db_def)
  show ?thesis
    unfolding start_registered [OF reg]
    using reg g
    by (simp add: Let_def get_user_def get_user_state_def
          clear_user_state_def add_user_def should_show_july_21_message_def
          process_offline_messages_frame [unfolded sample_db_def]
          sample_db_def sample_user_def split: option.splits)
qed


text \<open>
  C1 (amended). For a user who has not completed registration and whose persisted step
  is one of the registration steps or of the profile edit steps, \<open>start\<close> copies the
  persisted context into the working memory (persisted values win), replies with the
  notice that the session is restored followed by the prompt of the persisted step
  (the prompt for the last name, for the first name showing the last name, for the
  participation type showing both names, for the family size, for the children showing
  the family size, for the new first name or for the new last name), rendered from the
  working memory after the copy, returns that step and leaves the persisted state as it
  was. A value shown is the persisted one whenever the persisted context holds it. When the persisted context holds the keys that the prompt
  of the step reads, the replies are those of a start with an empty working memory,
  that is, after a restart. For a registered user \<open>start\<close> instead resets the state to
  idle, welcomes the user to the main menu and ends the conversation.
\<close>

theorem start_resumes_registration:
  "(\<not> is_user_registered d user_id
      \<and> user_states d user_id = Some (state, saved_context)
      \<and> state \<in> {REGISTRATION_FIRST_NAME, REGISTRATION_LAST_NAME, PARTICIPATION_TYPE,
                  FAMILY_MEMBERS_COUNT, CHILDREN_INFO, EDIT_FIRST_NAME, EDIT_LAST_NAME} \<longrightarrow>
      r_user_data (start d user_data user_id uname tg_first tg_last now)
        = user_data ++ saved_context
      \<and> r_replies (start d user_data user_id uname tg_first tg_last now)
        = (''session_restore'', [])
          # r_replies (continue_from_state d (user_data ++ saved_context) user_id state)
      \<and> (state = REGISTRATION_LAST_NAME \<longrightarrow>
            r_replies (start d user_data user_id uname tg_first tg_last now)
              = [(''session_restore'', []), (''prompt_last_name'', [])])
      \<and> (state = REGISTRATION_FIRST_NAME \<longrightarrow>
            r_replies (start d user_data user_id uname tg_first tg_last now)
              = [(''session_restore'', []),
                 (''prompt_first_name'',
                  [dict_get (user_data ++ saved_context) ''last_name'' (JStr [])])])
      \<and> (state = PARTICIPATION_TYPE \<longrightarrow>
            r_replies (start d user_data user_id uname tg_first tg_last now)
              = [(''session_restore'', []),
                 (''prompt_participation_type'',
                  [dict_get (user_data ++ saved_context) ''first_name'' (JStr []),
                   dict_get (user_data ++ saved_context) ''last_name'' (JStr [])])])
      \<and> (state = FAMILY_MEMBERS_COUNT \<longrightarrow>
            r_replies (start d user_data user_id uname tg_first tg_last now)
              = [(''session_restore'', []), (''prompt_family_members_count'', [])])
      \<and> (state = CHILDREN_INFO \<longrightarrow>
            r_replies (start d user_data user_id uname tg_first tg_last now)
              = [(''session_restore'', []),
                 (''prompt_children_info'',
                  [dict_get (user_data ++ saved_context) ''family_members_count'' (JInt 1)])])
      \<and> (state = EDIT_FIRST_NAME \<longrightarrow>
            r_replies (start d user_data user_id uname tg_first tg_last now)
              = [(''session_restore'', []), (''prompt_edit_first_name'', [])])
      \<and> (state = EDIT_LAST_NAME \<longrightarrow>
            r_replies (start d user_data user_id uname tg_first tg_last now)
              = [(''session_restore'', []), (''prompt_edit_last_name'', [])])
      \<and> (\<forall>k v. saved_context k = Some v \<longrightarrow>
            dict_get (user_data ++ saved_context) k dflt = v)
      \<and> length (r_replies (start d user_data user_id uname tg_first tg_last now)) = 2
      \<and> r_return (start d user_data user_id uname tg_first tg_last now) = Inr (Some state)
      \<and> get_user_state (r_db (start d user_data user_id uname tg_first tg_last now)) user_id
        = (state, saved_context)
      \<and> ((state = REGISTRATION_FIRST_NAME \<longrightarrow> ''last_name'' \<in> dom saved_context)
          \<and> (state = PARTICIPATION_TYPE \<longrightarrow>
                ''first_name'' \<in> dom saved_context \<and> ''last_name'' \<in> dom saved_context)
          \<and> (state = CHILDREN_INFO \<longrightarrow> ''family_members_count'' \<in> dom saved_context) \<longrightarrow>
          r_replies (start d user_data user_id uname tg_first tg_last now)
            = r_replies (start d Map.empty user_id uname tg_first tg_last now)))
   \<and> (is_user_registered d user_id \<longrightarrow>
      get_user_state (r_db (start d user_data user_id uname tg_first tg_last now)) user_id
        = (IDLE, Map.empty)
      \<and> r_return (start d user_data user_id uname tg_first tg_last now) = Inr (Some END)
      \<and> map fst (r_replies (start d user_data user_id uname tg_first tg_last now))
        = [''welcome_back''])"
proof (intro conjI impI)
  assume a: "\<not> is_user_registered d user_id
      \<and> user_states d user_id = Some (state, saved_context)
      \<and> state \<in> {REGISTRATION_FIRST_NAME, REGISTRATION_LAST_NAME, PARTICIPATION_TYPE,
                  FAMILY_MEMBERS_COUNT, CHILDREN_INFO, EDIT_FIRST_NAME, EDIT_LAST_NAME}"
  then have unreg: "\<not> is_user_registered d user_id"
    and st: "user_states d user_id = Some (state, saved_context)"
    and mem: "state \<in> {REGISTRATION_FIRST_NAME, REGISTRATION_LAST_NAME, PARTICIPATION_TYPE,
                  FAMILY_MEMBERS_COUNT, CHILDREN_INFO, EDIT_FIRST_NAME, EDIT_LAST_NAME}"
    by blast+
  from mem have nz: "state \<noteq> IDLE" by auto
  let ?d2 = "process_offline_messages (add_user d user_id uname tg_first tg_last) user_id"
  note s = start_unregistered [OF unreg st nz, of _ uname tg_first tg_last now]
  note c = continue_from_state_registration [OF mem]
  have g: "get_user_state ?d2 user_id = (state, saved_context)"
    using st by (simp add: get_user_state_def)
  show "r_user_data (start d user_data user_id uname tg_first tg_last now)
        = user_data ++ saved_context"
    by (simp add: s Let_def c)
  show "r_replies (start d user_data user_id uname tg_first tg_last now)
        = (''session_restore'', [])
          # r_replies (continue_from_state d (user_data ++ saved_context) user_id state)"
    using c(5) [of ?d2 "user_data ++ saved_context" user_id d] by (simp add: s Let_def)
  show "r_replies (start d user_data user_id uname tg_first tg_last now)
              = [(''session_restore'', []), (''prompt_last_name'', [])]"
    if "state = REGISTRATION_LAST_NAME"
    using that by (simp add: s Let_def continue_from_state_def)
  show "r_replies (start d user_data user_id uname tg_first tg_last now)
              = [(''session_restore'', []),
                 (''prompt_first_name'',
                  [dict_get (user_data ++ saved_context) ''last_name'' (JStr [])])]"
    if "state = REGISTRATION_FIRST_NAME"
    using that by (simp add: s Let_def continue_from_state_def)
  show "r_replies (start d user_data user_id uname tg_first tg_last now)
              = [(''session_restore'', []),
                 (''prompt_participation_type'',
                  [dict_get (user_data ++ saved_context) ''first_name'' (JStr []),
                   dict_get (user_data ++ saved_context) ''last_name'' (JStr [])])]"
    if "state = PARTICIPATION_TYPE"
    using that by (simp add: s Let_def continue_from_state_def)
  show "r_replies (start d user_data user_id uname tg_first tg_last now)
              = [(''session_restore'', []), (''prompt_family_members_count'', [])]"
    if "state = FAMILY_MEMBERS_COUNT"
    using that by (simp add: s Let_def continue_from_state_def)
  show "r_replies (start d user_data user_id uname tg_first tg_last now)
              = [(''session_restore'', []),
                 (''prompt_children_info'',
                  [dict_get (user_data ++ saved_context) ''family_members_count'' (JInt 1)])]"
    if "state = CHILDREN_INFO"
    using that by (simp add: s Let_def continue_from_state_def)
  show "r_replies (start d user_data user_id uname tg_first tg_last now)
              = [(''session_restore'', []), (''prompt_edit_first_name'', [])]"
    if "state = EDIT_FIRST_NAME"
    using that by (simp add: s Let_def continue_from_state_def)
  show "r_replies (start d user_data user_id uname tg_first tg_last now)
              = [(''session_restore'', []), (''prompt_edit_last_name'', [])]"
    if "state = EDIT_LAST_NAME"
    using that by (simp add: s Let_def continue_from_state_def)
  show "\<forall>k v. saved_context k = Some v \<longrightarrow>
            dict_get (user_data ++ saved_context) k dflt = v"
    by (simp add: dict_get_def map_add_def)
  show "length (r_replies (start d user_data user_id uname tg_first tg_last now)) = 2"
    by (simp add: s Let_def c)
  show "r_return (start d user_data user_id uname tg_first tg_last now) = Inr (Some state)"
    by (simp add: s Let_def c)
  show "get_user_state (r_db (start d user_data user_id uname tg_first tg_last now)) user_id
        = (state, saved_context)"
    using g by (simp add: s Let_def c)
  assume k: "(state = REGISTRATION_FIRST_NAME \<longrightarrow> ''last_name'' \<in> dom saved_context)
          \<and> (state = PARTICIPATION_TYPE \<longrightarrow>
                ''first_name'' \<in> dom saved_context \<and> ''last_name'' \<in> dom saved_context)
          \<and> (state = CHILDREN_INFO \<longrightarrow> ''family_members_count'' \<in> dom saved_context)"
  have "r_replies (continue_from_state ?d2 (user_data ++ saved_context) user_id state)
        = r_replies (continue_from_state ?d2 saved_context user_id state)"
    using mem k by (intro continue_from_state_keys) blast+
  then show "r_replies (start d user_data user_id uname tg_first tg_last now)
            = r_replies (start d Map.empty user_id uname tg_first tg_last now)"
    by (simp add: s Let_def)
next
  assume reg: "is_user_registered d user_id"
  note s = start_registered [OF reg]
  show "get_user_state (r_db (start d user_data user_id uname tg_first tg_last now)) user_id
        = (IDLE, Map.empty)"
    by (simp add: s Let_def get_user_state_def clear_user_state_def split: option.splits)
  show "r_return (start d user_data user_id uname tg_first tg_last now) = Inr (Some END)"
    by (simp add: s Let_def)
  show "map fst (r_replies (start d user_data user_id uname tg_first tg_last now))
        = [''welcome_back'']"
    by (simp add: s Let_def)
qed


lemma sample_newcomer_unregistered: "\<not> is_user_registered sample_db 2"
  by (simp add: is_user_registered_def sample_db_def sample_newcomer_def)

lemma sample_newcomer_state:
  "user_states sample_db 2
   = Some (REGISTRATION_FIRST_NAME,
           [''last_name'' \<mapsto> JStr (ascii ''Lee''), ''last_name_confirmed'' \<mapsto> JBool True])"
  by (simp add: sample_db_def)

lemma sample_user_registered: "is_user_registered sample_db 1"
  by (simp add: is_user_registered_def sample_db_def sample_user_def)

theorem start_resumes_registration_witness:
  "\<not> is_user_registered sample_db 2
   \<and> user_states sample_db 2
       = Some (REGISTRATION_FIRST_NAME,
               [''last_name'' \<mapsto> JStr (ascii ''Lee''), ''last_name_confirmed'' \<mapsto> JBool True])
   \<and> ''last_name'' \<in> dom [''last_name'' \<mapsto> JStr (ascii ''Lee''),
                            ''last_name_confirmed'' \<mapsto> JBool True]
   \<and> r_replies (start sample_db [''last_name'' \<mapsto> JStr (ascii ''Old'')] 2 JNull
                   (JStr (ascii ''Bo'')) JNull 50)
       = [(''session_restore'', []), (''prompt_first_name'', [JStr (ascii ''Lee'')])]
   \<and> r_replies (start sample_db [''last_name'' \<mapsto> JStr (ascii ''Old'')] 2 JNull
                   (JStr (ascii ''Bo'')) JNull 50)
       = r_replies (start sample_db Map.empty 2 JNull (JStr (ascii ''Bo'')) JNull 50)
   \<and> r_return (start sample_db [''last_name'' \<mapsto> JStr (ascii ''Old'')] 2 JNull
                   (JStr (ascii ''Bo'')) JNull 50) = Inr (Some REGISTRATION_FIRST_NAME)
   \<and> is_user_registered sample_db 1
   \<and> r_return (start sample_db Map.empty 1 JNull JNull JNull 50) = Inr (Some END)"
  using start_resumes_registration
          [of sample_db 2 REGISTRATION_FIRST_NAME
              "[''last_name'' \<mapsto> JStr (ascii ''Lee''), ''last_name_confirmed'' \<mapsto> JBool True]"
              "[''last_name'' \<mapsto> JStr (ascii ''Old'')]" JNull "JStr (ascii ''Bo'')" JNull 50]
        start_resumes_registration
          [of sample_db 2 REGISTRATION_FIRST_NAME
              "[''last_name'' \<mapsto> JStr (ascii ''Lee''), ''last_name_confirmed'' \<mapsto> JBool True]"
              Map.empty JNull "JStr (ascii ''Bo'')" JNull 50]
        start_resumes_registration
          [of sample_db 1 REGISTRATION_FIRST_NAME Map.empty Map.empty JNull JNull JNull 50]
        sample_newcomer_unregistered sample_newcomer_state sample_user_registered
  by (simp add: continue_from_state_def dict_get_def)

text \<open>
  C6, as stated with a threshold of 10 characters, fails at the threshold: a text of
  exactly 10 characters from a registered, idle user is filed only as \<open>text_unknown\<close> and
  answered with the prompt for an unknown command.
\<close>

theorem triage_ten_characters_counterexample:
  "is_user_registered (clear_user_state sample_db 1) 1
   \<and> get_user_state (clear_user_state sample_db 1) 1 = (IDLE, Map.empty)
   \<and> length (ascii ''0123456789'') = 10
   \<and> map (\<lambda>m. (m_id m, m_type m, m_processed m))
        (offline_messages (r_db (handle_message (clear_user_state sample_db 1) Map.empty 1
            (ascii ''0123456789'') 50 60)))
       = [(42, ''potential_report'', False), (43, ''text_processing'', True),
          (44, ''text_unknown'', False)]
   \<and> r_replies (handle_message (clear_user_state sample_db 1) Map.empty 1
            (ascii ''0123456789'') 50 60) = [(''unknown_command'', [])]"
  by (simp add: handle_message_def is_user_registered_def save_offline_message_def
        get_offline_messages_def get_user_state_def clear_user_state_def
        mark_offline_message_processed_def
        sample_db_def sample_user_def sample_entry_def ascii_def Let_def
        MENU_RULES_def MENU_INSTRUCTIONS_def MENU_SUBMIT_def MENU_BANK_def MENU_RESULT_def
        MENU_PROFILE_def MENU_ABOUT_def MENU_MAIN_def MENU_EDIT_FIRST_def MENU_EDIT_LAST_def
        MENU_SUPPORT_def)


lemma last_sort_key_in_set:
  "sort_key f xs = m # ms \<Longrightarrow> last (m # ms) \<in> set xs"
proof -
  assume a: "sort_key f xs = m # ms"
  have "last (m # ms) \<in> set (m # ms)" by (rule last_in_set) simp
  with a have "last (m # ms) \<in> set (sort_key f xs)" by simp
  then show ?thesis by simp
qed

lemma temp_msg_id_bound:
  assumes ids: "list_all (\<lambda>m. m_id m < next_message_id d) (offline_messages d)"
      and g: "get_offline_messages (save_offline_message d u md ty now) u = m # ms"
  shows "m_id (last (m # ms)) \<le> next_message_id d"
proof -
  from g have "last (m # ms) \<in> set (filter (\<lambda>m. m_user_id m = u \<and> \<not> m_processed m)
                  (offline_messages (save_offline_message d u md ty now)))"
    unfolding get_offline_messages_def by (rule last_sort_key_in_set)
  then have "last (m # ms) \<in> set (offline_messages (save_offline_message d u md ty now))"
    by simp
  then show ?thesis using ids
    by (auto simp: save_offline_message_def list_all_iff)
qed

lemma mark_other_rows:
  "list_all (\<lambda>m. m_id m \<noteq> i) rows \<Longrightarrow>
   map (\<lambda>m. if m_id m = i then m\<lparr>m_processed := True\<rparr> else m) rows = rows"
  by (induction rows) auto

text \<open>
  C6 (amended). For a registered user with no edit or submission step persisted, a text
  that is none of the menu buttons is filed as \<open>text_unknown\<close>; when it is longer than 10
  characters (11 or more) it is filed once more as a \<open>potential_report\<close> entry with
  \<open>processed\<close> false, carrying the text as content, and the answer is the warning that
  the report was not accepted; a text of 10 characters or fewer gets no
  \<open>potential_report\<close> entry and the answer is the prompt for an unknown command. No
  submission is created either way.
\<close>

theorem triage_by_length:
  assumes reg: "is_user_registered d user_id"
      and st: "fst (get_user_state d user_id) \<notin> {EDIT_FIRST_NAME, EDIT_LAST_NAME, TASK_SUBMISSION}"
      and nomenu: "text \<notin> {MENU_RULES, MENU_INSTRUCTIONS, MENU_SUBMIT, MENU_BANK, MENU_RESULT,
                     MENU_PROFILE, MENU_ABOUT, MENU_MAIN, MENU_EDIT_FIRST, MENU_EDIT_LAST,
                     MENU_SUPPORT}"
      and ids: "list_all (\<lambda>m. m_id m < next_message_id d) (offline_messages d)"
      and r: "r = handle_message d user_data user_id text date now"
      and unknown_row: "unknown_row =
             \<lparr>m_id = next_message_id d + 1, m_user_id = user_id,
              m_data = Json_object [''text'' \<mapsto> JStr text, ''date'' \<mapsto> JTime date,
                                    ''context'' \<mapsto> JStr (ascii ''unknown_command'')],
              m_type = ''text_unknown'', m_received = now, m_processed = False\<rparr>"
      and potential_row: "potential_row =
             \<lparr>m_id = next_message_id d + 2, m_user_id = user_id,
              m_data = Json_object
                         [''user_id'' \<mapsto> JInt user_id, ''content'' \<mapsto> JStr text,
                          ''type'' \<mapsto> JStr (ascii ''text''), ''date'' \<mapsto> JTime date,
                          ''context'' \<mapsto> JStr (ascii ''potential_report_out_of_context'')],
              m_type = ''potential_report'', m_received = now, m_processed = False\<rparr>"
  shows "(length text > 10 \<longrightarrow>
            drop (length (offline_messages d) + 1) (offline_messages (r_db r))
              = [unknown_row, potential_row]
            \<and> r_replies r = [(''not_accepted_warning'', [])])
       \<and> (length text \<le> 10 \<longrightarrow>
            drop (length (offline_messages d) + 1) (offline_messages (r_db r)) = [unknown_row]
            \<and> r_replies r = [(''unknown_command'', [])])
       \<and> r_return r = Inr None
       \<and> submissions (r_db r) = submissions d"
proof -
  define md where "md = Json_object [''text'' \<mapsto> JStr text, ''date'' \<mapsto> JTime date,
                                  ''context'' \<mapsto> JStr (ascii ''main_menu'')]"
  define d1 where "d1 = save_offline_message d user_id md ''text_processing'' now"
  define tmp where "tmp = (case get_offline_messages d1 user_id of
                              [] \<Rightarrow> None
                            | m # ms \<Rightarrow> Some (m_id (last (m # ms))))"
  define rows where "rows = (if length text > 10 then [unknown_row, potential_row]
                             else [unknown_row])"
  define d2 where "d2 = d1\<lparr>offline_messages := offline_messages d1 @ rows,
                          next_message_id := next_message_id d1 + int (length rows)\<rparr>"
  obtain s c where sc: "get_user_state d user_id = (s, c)" by (cases "get_user_state d user_id")
  have sc1: "get_user_state d1 user_id = (s, c)"
    using sc by (simp add: d1_def get_user_state_def save_offline_message_def)
  from st sc have s: "s \<noteq> 30" "s \<noteq> 31" "s \<noteq> 20" by auto
  have n1: "next_message_id d1 = next_message_id d + 1"
    and l1: "length (offline_messages d1) = length (offline_messages d) + 1"
    and sub1: "submissions d1 = submissions d"
    by (simp_all add: d1_def save_offline_message_def)
  have tmp_bound: "i \<le> next_message_id d" if "tmp = Some i" for i
  proof (cases "get_offline_messages d1 user_id")
    case Nil
    with that show ?thesis by (simp add: tmp_def)
  next
    case (Cons m ms)
    from temp_msg_id_bound [OF ids Cons [unfolded d1_def]] that Cons
    show ?thesis by (simp add: tmp_def)
  qed
  have rdb: "r_db r = (case tmp of None \<Rightarrow> d2
                       | Some i \<Rightarrow> if i \<noteq> 0 then mark_offline_message_processed d2 i else d2)"
    and rrep: "r_replies r = (if length text > 10 then [(''not_accepted_warning'', [])]
                             else [(''unknown_command'', [])])"
    and rret: "r_return r = Inr None"
    using reg nomenu s sc1
    unfolding r handle_message_def Let_def md_def [symmetric] d1_def [symmetric]
      tmp_def [symmetric]
    by (simp_all add: d2_def rows_def unknown_row potential_row save_offline_message_def n1
          add.commute split: option.splits)
  have rows_ids: "list_all (\<lambda>m. m_id m \<noteq> i) rows" if "tmp = Some i" for i
    using tmp_bound [OF that] by (simp add: rows_def unknown_row potential_row)
  have msgs: "drop (length (offline_messages d) + 1) (offline_messages (r_db r)) = rows"
  proof (cases tmp)
    case None
    then show ?thesis by (simp add: rdb d2_def l1)
  next
    case (Some i)
    show ?thesis
    proof (cases "i = 0")
      case True
      with Some show ?thesis by (simp add: rdb d2_def l1)
    next
      case False
      with Some have "offline_messages (r_db r)
          = map (\<lambda>m. if m_id m = i then m\<lparr>m_processed := True\<rparr> else m) (offline_messages d1)
            @ rows"
        using mark_other_rows [OF rows_ids [OF Some]]
        by (simp add: rdb d2_def mark_offline_message_processed_def)
      then show ?thesis by (simp add: l1)
    qed
  qed
  have subs: "submissions (r_db r) = submissions d"
    by (simp add: rdb d2_def sub1 mark_offline_message_processed_def split: option.splits)
  from msgs rrep rret subs show ?thesis by (simp add: rows_def)
qed


lemma sample_idle_registered: "is_user_registered (clear_user_state sample_db 1) 1"
  by (simp add: is_user_registered_def clear_user_state_def sample_db_def sample_user_def)

lemma sample_idle_step:
  "fst (get_user_state (clear_user_state sample_db 1) 1)
   \<notin> {EDIT_FIRST_NAME, EDIT_LAST_NAME, TASK_SUBMISSION}"
  by (simp add: get_user_state_def clear_user_state_def sample_db_def)

lemma hello_world_no_button:
  "ascii ''hello world'' \<notin> {MENU_RULES, MENU_INSTRUCTIONS, MENU_SUBMIT, MENU_BANK, MENU_RESULT,
      MENU_PROFILE, MENU_ABOUT, MENU_MAIN, MENU_EDIT_FIRST, MENU_EDIT_LAST, MENU_SUPPORT}"
  by (simp add: ascii_def MENU_RULES_def MENU_INSTRUCTIONS_def MENU_SUBMIT_def MENU_BANK_def
        MENU_RESULT_def MENU_PROFILE_def MENU_ABOUT_def MENU_MAIN_def MENU_EDIT_FIRST_def
        MENU_EDIT_LAST_def MENU_SUPPORT_def)

lemma sample_idle_message_ids:
  "list_all (\<lambda>m. m_id m < next_message_id (clear_user_state sample_db 1))
     (offline_messages (clear_user_state sample_db 1))"
  by (simp add: clear_user_state_def sample_db_def sample_entry_def)

theorem triage_by_length_witness:
  "is_user_registered (clear_user_state sample_db 1) 1
   \<and> fst (get_user_state (clear_user_state sample_db 1) 1)
       \<notin> {EDIT_FIRST_NAME, EDIT_LAST_NAME, TASK_SUBMISSION}
   \<and> ascii ''hello world'' \<notin> {MENU_RULES, MENU_INSTRUCTIONS, MENU_SUBMIT, MENU_BANK,
         MENU_RESULT, MENU_PROFILE, MENU_ABOUT, MENU_MAIN, MENU_EDIT_FIRST, MENU_EDIT_LAST,
         MENU_SUPPORT}
   \<and> list_all (\<lambda>m. m_id m < next_message_id (clear_user_state sample_db 1))
        (offline_messages (clear_user_state sample_db 1))
   \<and> length (ascii ''hello world'') = 11
   \<and> map (\<lambda>m. (m_id m, m_type m, m_processed m))
        (drop 2 (offline_messages (r_db (handle_message (clear_user_state sample_db 1)
            Map.empty 1 (ascii ''hello world'') 50 60))))
       = [(44, ''text_unknown'', False), (45, ''potential_report'', False)]
   \<and> r_replies (handle_message (clear_user_state sample_db 1) Map.empty 1
         (ascii ''hello world'') 50 60) = [(''not_accepted_warning'', [])]"
proof -
  let ?D = "clear_user_state sample_db 1"
  let ?R = "handle_message ?D Map.empty 1 (ascii ''hello world'') 50 60"
  have len: "length (ascii ''hello world'') = 11" by (simp add: ascii_def)
  have n: "next_message_id ?D = 43" "length (offline_messages ?D) + 1 = 2"
    by (simp_all add: clear_user_state_def sample_db_def)
  from triage_by_length
          [OF sample_idle_registered sample_idle_step hello_world_no_button
              sample_idle_message_ids refl refl refl, of Map.empty 50 60]
       len
  have "drop (length (offline_messages ?D) + 1) (offline_messages (r_db ?R))
          = [\<lparr>m_id = next_message_id ?D + 1, m_user_id = 1,
               m_data = Json_object [''text'' \<mapsto> JStr (ascii ''hello world''),
                                     ''date'' \<mapsto> JTime 50,
                                     ''context'' \<mapsto> JStr (ascii ''unknown_command'')],
               m_type = ''text_unknown'', m_received = 60, m_processed = False\<rparr>,
             \<lparr>m_id = next_message_id ?D + 2, m_user_id = 1,
               m_data = Json_object
                          [''user_id'' \<mapsto> JInt 1,
                           ''content'' \<mapsto> JStr (ascii ''hello world''),
                           ''type'' \<mapsto> JStr (ascii ''text''), ''date'' \<mapsto> JTime 50,
                           ''context'' \<mapsto> JStr (ascii ''potential_report_out_of_context'')],
               m_type = ''potential_report'', m_received = 60, m_processed = False\<rparr>]"
    and rep: "r_replies ?R = [(''not_accepted_warning'', [])]"
    by simp_all
  then have "map (\<lambda>m. (m_id m, m_type m, m_processed m)) (drop 2 (offline_messages (r_db ?R)))
             = [(44, ''text_unknown'', False), (45, ''potential_report'', False)]"
    unfolding n by simp
  with rep len sample_idle_registered sample_idle_step hello_world_no_button
       sample_idle_message_ids
  show ?thesis by blast
qed

text \<open>
  C7 (evaluation of the code). User 2 of the sample store has not completed
  registration. A photo, a video or a document from this user leaves the store exactly
  as it was, although the reply says that the attachment was saved; a text from the same
  user is filed in the inbox as \<open>text_unregistered\<close>.
\<close>

theorem attachment_unregistered_not_filed:
  "\<not> is_user_registered sample_db 2
   \<and> r_db (handle_photo_message sample_db Map.empty 2 None (ascii ''AgAC'') 50 60
             (Some (ascii ''photos/user2.jpg''))) = sample_db
   \<and> r_replies (handle_photo_message sample_db Map.empty 2 None (ascii ''AgAC'') 50 60
             (Some (ascii ''photos/user2.jpg''))) = [(''register_first_photo_saved'', [])]
   \<and> r_db (handle_video_message sample_db Map.empty 2 None (ascii ''BAAC'') 50 60 None)
       = sample_db
   \<and> r_db (handle_document_message sample_db Map.empty 2 None (ascii ''BQAC'')
             (Some (ascii ''report.pdf'')) 50 60 None) = sample_db
   \<and> map m_type (offline_messages
         (r_db (handle_message sample_db Map.empty 2 (ascii ''hello'') 50 60)))
       = [''potential_report'', ''text_unregistered'']"
  by (simp add: handle_photo_message_def handle_video_message_def handle_document_message_def
        handle_message_def is_user_registered_def save_offline_message_def sample_db_def
        sample_entry_def sample_newcomer_def)


text \<open>
  C9. When the validator of a step rejects the input, the state persisted after the
  handler is still that step and the reply is the correction prompt of the step: a last
  or first name shorter than 2 characters after stripping, a participation choice that
  is neither button, a family size that \<open>int()\<close> refuses or that is outside 1..10, a
  message of an unsupported kind in the submission step. The profile edit steps reply
  with their correction prompt and do not write to the store, so the persisted step
  stays. (The registration steps count the attempts in the
  working memory; the counter is an integer whenever the bot wrote it. Were it not a
  number, the increment would raise before the state is written, and the persisted
  state would stay as it was.)
\<close>

theorem invalid_input_keeps_step:
  "(length (strip text) < 2 \<longrightarrow>
      (\<forall>n. next_attempt user_data = Inr n \<longrightarrow>
         fst (get_user_state (r_db (registration_last_name d user_data user_id text date now))
                user_id) = REGISTRATION_LAST_NAME
         \<and> r_replies (registration_last_name d user_data user_id text date now)
             = [(''invalid_last_name'', [])]
         \<and> r_return (registration_last_name d user_data user_id text date now)
             = Inr (Some REGISTRATION_LAST_NAME)
         \<and> fst (get_user_state (r_db (registration_first_name d user_data user_id text date now))
                user_id) = REGISTRATION_FIRST_NAME
         \<and> r_replies (registration_first_name d user_data user_id text date now)
             = [(''invalid_first_name'', [])]
         \<and> r_return (registration_first_name d user_data user_id text date now)
             = Inr (Some REGISTRATION_FIRST_NAME))
      \<and> (\<forall>e. next_attempt user_data = Inl e \<longrightarrow>
         user_states (r_db (registration_last_name d user_data user_id text date now))
           = user_states d
         \<and> r_return (registration_last_name d user_data user_id text date now) = Inl e
         \<and> user_states (r_db (registration_first_name d user_data user_id text date now))
           = user_states d
         \<and> r_return (registration_first_name d user_data user_id text date now) = Inl e)
      \<and> (text \<noteq> MENU_MAIN \<longrightarrow>
         r_db (handle_edit_first_name d user_data user_id text) = d
         \<and> r_replies (handle_edit_first_name d user_data user_id text)
             = [(''invalid_edit_first_name'', [])]
         \<and> r_return (handle_edit_first_name d user_data user_id text)
             = Inr (Some EDIT_FIRST_NAME)
         \<and> r_db (handle_edit_last_name d user_data user_id text) = d
         \<and> r_replies (handle_edit_last_name d user_data user_id text)
             = [(''invalid_edit_last_name'', [])]
         \<and> r_return (handle_edit_last_name d user_data user_id text)
             = Inr (Some EDIT_LAST_NAME)))
   \<and> (text \<noteq> BTN_INDIVIDUAL \<and> text \<noteq> BTN_FAMILY \<longrightarrow>
      (\<forall>n. next_attempt user_data = Inr n \<longrightarrow>
         fst (get_user_state (r_db (participation_type_step d user_data user_id text date now))
                user_id) = PARTICIPATION_TYPE
         \<and> r_replies (participation_type_step d user_data user_id text date now)
             = [(''invalid_participation_type'', [])]
         \<and> r_return (participation_type_step d user_data user_id text date now)
             = Inr (Some PARTICIPATION_TYPE))
      \<and> (\<forall>e. next_attempt user_data = Inl e \<longrightarrow>
         user_states (r_db (participation_type_step d user_data user_id text date now))
           = user_states d
         \<and> r_return (participation_type_step d user_data user_id text date now) = Inl e))
   \<and> ((case int_of_str (strip text) of None \<Rightarrow> True | Some k \<Rightarrow> k < 1 \<or> k > 10) \<longrightarrow>
      (\<forall>n. next_attempt user_data = Inr n \<longrightarrow>
         fst (get_user_state
                (r_db (family_members_count_step int_of_str d user_data user_id text date now))
                user_id) = FAMILY_MEMBERS_COUNT
         \<and> r_replies (family_members_count_step int_of_str d user_data user_id text date now)
             = [(''invalid_family_members_count'', [])]
         \<and> r_return (family_members_count_step int_of_str d user_data user_id text date now)
             = Inr (Some FAMILY_MEMBERS_COUNT))
      \<and> (\<forall>e. next_attempt user_data = Inl e \<longrightarrow>
         user_states
             (r_db (family_members_count_step int_of_str d user_data user_id text date now))
           = user_states d
         \<and> r_return (family_members_count_step int_of_str d user_data user_id text date now)
             = Inl e))
   \<and> (user_data ''selected_task_id'' = Some (JInt task_id) \<longrightarrow>
      fst (get_user_state
             (r_db (handle_task_submission_content d user_data user_id Other_content date now
                      downloaded))
             user_id) = TASK_SUBMISSION
      \<and> r_replies (handle_task_submission_content d user_data user_id Other_content date now
                      downloaded)
          = [(''unsupported_content'', [])])"
proof -
  have t: "user_data ''selected_task_id'' = Some (JInt task_id) \<longrightarrow>
      fst (get_user_state
             (r_db (handle_task_submission_content d user_data user_id Other_content date now
                      downloaded))
             user_id) = TASK_SUBMISSION
      \<and> r_replies (handle_task_submission_content d user_data user_id Other_content date now
                      downloaded)
          = [(''unsupported_content'', [])]"
    by (simp add: handle_task_submission_content_def Let_def split: prod.splits)
  have "(length (strip text) < 2 \<longrightarrow> strip text = [] \<or> length (strip text) < 2)" by simp
  with t show ?thesis
    by (auto simp: registration_last_name_def registration_first_name_def
          participation_type_step_def family_members_count_step_def
          handle_edit_first_name_def handle_edit_last_name_def Let_def
          split: option.splits)
qed


text \<open>
  In the evaluation below \<open>int()\<close> is given by its values at the two inputs that reach
  it: \<open>int('11')\<close> is 11 and \<open>int('a')\<close> raises.
\<close>

lemma short_name: "length (strip (ascii '' a '')) < 2"
  by (simp add: strip_def ascii_def is_space_def)

theorem invalid_input_keeps_step_witness:
  "length (strip (ascii '' a '')) < 2
   \<and> next_attempt [''invalid_attempts'' \<mapsto> JInt 2] = Inr (JInt 3)
   \<and> ascii '' a '' \<noteq> MENU_MAIN \<and> ascii '' a '' \<noteq> BTN_INDIVIDUAL \<and> ascii '' a '' \<noteq> BTN_FAMILY
   \<and> [ascii ''11'' \<mapsto> 11] (strip (ascii '' a '')) = None
   \<and> get_user_state (r_db (registration_last_name sample_db
         [''invalid_attempts'' \<mapsto> JInt 2] 2 (ascii '' a '') 50 60)) 2
       = (REGISTRATION_LAST_NAME,
          [''invalid_attempts'' \<mapsto> JInt 3, ''last_invalid_input'' \<mapsto> JStr (ascii ''a''),
           ''timestamp'' \<mapsto> JTime 50])
   \<and> fst (get_user_state (r_db (registration_first_name sample_db
         [''invalid_attempts'' \<mapsto> JInt 2] 2 (ascii '' a '') 50 60)) 2)
       = REGISTRATION_FIRST_NAME
   \<and> fst (get_user_state (r_db (participation_type_step sample_db
         [''invalid_attempts'' \<mapsto> JInt 2] 2 (ascii '' a '') 50 60)) 2)
       = PARTICIPATION_TYPE
   \<and> fst (get_user_state (r_db (family_members_count_step [ascii ''11'' \<mapsto> 11] sample_db
         [''invalid_attempts'' \<mapsto> JInt 2] 2 (ascii '' a '') 50 60)) 2)
       = FAMILY_MEMBERS_COUNT
   \<and> r_replies (family_members_count_step [ascii ''11'' \<mapsto> 11] sample_db
         [''invalid_attempts'' \<mapsto> JInt 2] 2 (ascii '' a '') 50 60)
       = [(''invalid_family_members_count'', [])]
   \<and> r_db (handle_edit_first_name sample_db [''invalid_attempts'' \<mapsto> JInt 2] 2
         (ascii '' a '')) = sample_db
   \<and> next_attempt [''invalid_attempts'' \<mapsto> JStr []] = Inl TypeError
   \<and> r_return (registration_last_name sample_db [''invalid_attempts'' \<mapsto> JStr []] 2
         (ascii '' a '') 50 60) = Inl TypeError
   \<and> [ascii ''11'' \<mapsto> 11] (ascii ''11'') = Some 11
   \<and> fst (get_user_state (r_db (family_members_count_step [ascii ''11'' \<mapsto> 11] sample_db
         Map.empty 2 (ascii ''11'') 50 60)) 2) = FAMILY_MEMBERS_COUNT
   \<and> fst (get_user_state (r_db (handle_task_submission_content sample_db
         [''selected_task_id'' \<mapsto> JInt 7] 1 Other_content 50 60 None)) 1) = TASK_SUBMISSION"
  using invalid_input_keeps_step
          [of "ascii '' a ''" "[''invalid_attempts'' \<mapsto> JInt 2]" sample_db 2 50 60
              "[ascii ''11'' \<mapsto> 11]"]
        invalid_input_keeps_step
          [of "ascii '' a ''" "[''invalid_attempts'' \<mapsto> JStr []]" sample_db 2 50 60
              "[ascii ''11'' \<mapsto> 11]"]
        invalid_input_keeps_step
          [of "ascii ''11''" Map.empty sample_db 2 50 60
              "[ascii ''11'' \<mapsto> 11]"]
        invalid_input_keeps_step
          [of "ascii ''11''" "[''selected_task_id'' \<mapsto> JInt 7]" sample_db 1 50 60
              "[ascii ''11'' \<mapsto> 11]" 7 None]
        short_name
  by (simp add: next_attempt_def strip_def is_space_def ascii_def
        MENU_MAIN_def BTN_INDIVIDUAL_def BTN_FAMILY_def
        registration_last_name_def Let_def)


lemma continue_from_state_users [simp]:
  "users (r_db (continue_from_state d ud u st)) = users d"
  by (simp add: continue_from_state_def clear_user_state_def split: option.splits)

lemma clear_user_state_users [simp]: "users (clear_user_state d u) = users d"
  by (simp add: clear_user_state_def split: option.splits)

lemma save_user_state_users [simp]: "users (save_user_state d u s c) = users d"
  by (simp add: save_user_state_def)

lemma start_users:
  "users (r_db (start d user_data user_id uname tg_first tg_last now))
   = users (add_user d user_id uname tg_first tg_last)"
  by (simp add: start_def Let_def split: prod.splits)

text \<open>
  C10. For a user id that is already in the users table, \<open>add_user\<close> overwrites the three
  fields supplied by Telegram and leaves the self-declared first and last name, the
  participation type, the family size, the children information and the
  registration flag as they were; the rows of other users are untouched. \<open>start\<close>
  changes the users table through \<open>add_user\<close> only, so a repeated start command never
  un-registers a user.
\<close>

theorem add_user_keeps_registration:
  assumes u: "users d user_id = Some u"
  shows "(\<exists>v. users (add_user d user_id uname tg_first tg_last) user_id = Some v
            \<and> username v = uname \<and> telegram_first_name v = tg_first
            \<and> telegram_last_name v = tg_last
            \<and> first_name v = first_name u \<and> last_name v = last_name u
            \<and> participation_type v = participation_type u
            \<and> family_members_count v = family_members_count u
            \<and> children_info v = children_info u
            \<and> registration_completed v = registration_completed u)
       \<and> (\<forall>other. other \<noteq> user_id \<longrightarrow>
             users (add_user d user_id uname tg_first tg_last) other = users d other)
       \<and> is_user_registered (add_user d user_id uname tg_first tg_last) user_id
           = is_user_registered d user_id
       \<and> users (r_db (start d user_data user_id uname tg_first tg_last now))
           = users (add_user d user_id uname tg_first tg_last)
       \<and> is_user_registered (r_db (start d user_data user_id uname tg_first tg_last now))
             user_id
           = is_user_registered d user_id"
proof -
  have a: "users (add_user d user_id uname tg_first tg_last)
           = (users d)(user_id \<mapsto> u\<lparr>username := uname, telegram_first_name := tg_first,
                                      telegram_last_name := tg_last\<rparr>)"
    using u by (simp add: add_user_def)
  have r: "is_user_registered (r_db (start d user_data user_id uname tg_first tg_last now))
             user_id
           = is_user_registered (add_user d user_id uname tg_first tg_last) user_id"
    by (rule is_user_registered_cong) (rule start_users)
  show ?thesis
    using u by (simp add: a r start_users is_user_registered_def)
qed

lemma sample_user_row: "users sample_db 1 = Some sample_user"
  by (simp add: sample_db_def)

theorem add_user_keeps_registration_witness:
  "users sample_db 1 = Some sample_user
   \<and> users (add_user sample_db 1 (JStr (ascii ''new'')) JNull JNull) 1
       = Some (sample_user\<lparr>username := JStr (ascii ''new''), telegram_first_name := JNull\<rparr>)
   \<and> is_user_registered (add_user sample_db 1 (JStr (ascii ''new'')) JNull JNull) 1
   \<and> users (add_user sample_db 1 (JStr (ascii ''new'')) JNull JNull) 2 = Some sample_newcomer
   \<and> is_user_registered
         (r_db (start sample_db Map.empty 1 (JStr (ascii ''new'')) JNull JNull 50)) 1"
  using add_user_keeps_registration [OF sample_user_row, of "JStr (ascii ''new'')" JNull JNull
          Map.empty 50]
        sample_user_row sample_user_registered
  by (simp add: add_user_def sample_db_def sample_user_def)


end
